theory Spec2Isabelle
  imports Main "HOL-Library.Option_ord" "HOL-Library.Multiset"
begin

section \<open>Data model\<close>

text \<open>
  The rows of the two tables the property query service reads and writes
  (\<^verbatim>\<open>api/models/property.js\<close>, \<^verbatim>\<open>api/models/propertyImage.js\<close>).
  A column declared \<^verbatim>\<open>allowNull: true\<close> that an operation compares or orders
  (\<^verbatim>\<open>year_built\<close>, and the three room counters) is an \<open>option\<close>, SQL NULL being \<open>None\<close>.
  Prices and timestamps are integers: only their order is ever used.
\<close>

record property =
  property_id :: int
  user_id :: int
  name :: string
  description :: string
  city :: string
  price :: int
  property_type :: string
  square_meter :: int
  bedrooms :: int
  bathrooms :: int
  living_rooms :: "int option"
  balconies :: "int option"
  parking_spaces :: "int option"
  furnished :: bool
  year_built :: "int option"
  isForRent :: bool
  isApproved :: bool
  created_at :: int

record property_image =
  image_id :: int
  image_url :: string
  image_property_id :: int

text \<open>
  What \<^verbatim>\<open>attachImagesToProperties\<close> returns for one property: the plain object of the
  row, \<^verbatim>\<open>{...property.toJSON(), images: [...]}\<close>.
\<close>

record property_with_images = property +
  images :: "string list"

text \<open>A JavaScript \<^verbatim>\<open>Error\<close>, identified by its message.\<close>

datatype error = Error string

text \<open>
  The values of an update come straight from the request body, so they are
  JavaScript values of any type; \<open>JUndefined\<close> is a field the request does not have.
\<close>

datatype jsval = JUndefined | JNull | JBool bool | JNum int | JStr string

datatype attr =
    AName | ADescription | ACity | APrice | APropertyType | ABedrooms | ABathrooms
  | ALivingRooms | ABalconies | AParkingSpaces | AFurnished | AYearBuilt

text \<open>
  The persistent store and what the service reads from its surroundings. The two
  lists hold the tables in the store's natural order. \<open>next_property_id\<close> is the
  AUTO_INCREMENT counter of the primary key, \<open>now\<close> the clock that \<^verbatim>\<open>new Date()\<close>
  reads, \<open>current_year\<close> the value of \<^verbatim>\<open>new Date().getFullYear()\<close> taken when the model
  was defined. A call on a model whose fault is set rejects with that error.

  The last six fields say what the store and its client library make of a value
  whose JavaScript type is not the type of the column it is written to; the
  repository has no code for that. \<open>str_below s n\<close> and \<open>str_above s n\<close> say
  whether the client's \<^verbatim>\<open>min\<close> and \<^verbatim>\<open>max\<close> validators read the string \<open>s\<close> as a number
  below, respectively above, \<open>n\<close>. The four conversions give the value of the
  column's type that the store writes, or the error with which it refuses.
\<close>

record db =
  properties :: "property list"
  property_images :: "property_image list"
  next_property_id :: int
  now :: int
  current_year :: int
  property_fault :: "error option"
  image_fault :: "error option"
  str_below :: "string \<Rightarrow> int \<Rightarrow> bool"
  str_above :: "string \<Rightarrow> int \<Rightarrow> bool"
  to_string :: "attr \<Rightarrow> jsval \<Rightarrow> error + string"
  to_integer :: "attr \<Rightarrow> jsval \<Rightarrow> error + int"
  to_boolean :: "jsval \<Rightarrow> error + bool"
  to_property_type :: "jsval \<Rightarrow> error + string"

section \<open>The store's queries\<close>

text \<open>
  A \<^verbatim>\<open>where\<close> object is the list of its entries, read as a conjunction. A comparison
  with a NULL column is not true in SQL, so a row without \<open>year_built\<close> passes
  no bound on it.
\<close>

datatype cond =
    IsApprovedEq bool
  | IsForRentEq bool
  | CityEq string
  | PropertyTypeEq string
  | FurnishedEq bool
  | UserIdEq int
  | UserIdNe int
  | NameEq string
  | YearBuiltGte int
  | YearBuiltLte int
  | PriceGte int
  | PriceLte int

fun holds :: "cond \<Rightarrow> 'a property_scheme \<Rightarrow> bool" where
  "holds (IsApprovedEq b) p = (isApproved p = b)"
| "holds (IsForRentEq b) p = (isForRent p = b)"
| "holds (CityEq c) p = (city p = c)"
| "holds (PropertyTypeEq t) p = (property_type p = t)"
| "holds (FurnishedEq b) p = (furnished p = b)"
| "holds (UserIdEq u) p = (user_id p = u)"
| "holds (UserIdNe u) p = (user_id p \<noteq> u)"
| "holds (NameEq n) p = (name p = n)"
| "holds (YearBuiltGte y) p = (case year_built p of None \<Rightarrow> False | Some v \<Rightarrow> y \<le> v)"
| "holds (YearBuiltLte y) p = (case year_built p of None \<Rightarrow> False | Some v \<Rightarrow> v \<le> y)"
| "holds (PriceGte x) p = (x \<le> price p)"
| "holds (PriceLte x) p = (price p \<le> x)"

definition matches :: "cond list \<Rightarrow> 'a property_scheme \<Rightarrow> bool" where
  "matches w p = list_all (\<lambda>c. holds c p) w"

datatype sort_column = ColPrice | ColCreatedAt | ColYearBuilt

datatype direction = ASC | DESC

text \<open>
  ORDER BY, one term after the other, the first term the most significant. An
  empty list leaves the rows in the store's natural order. NULL sorts first
  ascending and last descending, as \<open>None\<close> does below every \<open>Some\<close>.
\<close>

definition sortAsc :: "sort_column \<Rightarrow> property list \<Rightarrow> property list" where
  "sortAsc c rows =
     (case c of
        ColPrice \<Rightarrow> sort_key price rows
      | ColCreatedAt \<Rightarrow> sort_key created_at rows
      | ColYearBuilt \<Rightarrow> sort_key year_built rows)"

fun orderRows :: "(sort_column \<times> direction) list \<Rightarrow> property list \<Rightarrow> property list" where
  "orderRows [] rows = rows"
| "orderRows ((c, ASC) # os) rows = sortAsc c (orderRows os rows)"
| "orderRows ((c, DESC) # os) rows = rev (sortAsc c (rev (orderRows os rows)))"

definition Property_findAll ::
  "db \<Rightarrow> cond list \<Rightarrow> (sort_column \<times> direction) list \<Rightarrow> error + property list" where
  "Property_findAll st w ord =
     (case property_fault st of
        Some e \<Rightarrow> Inl e
      | None \<Rightarrow> Inr (orderRows ord (filter (matches w) (properties st))))"

definition PropertyImage_findAll_by_property :: "db \<Rightarrow> int \<Rightarrow> error + property_image list" where
  "PropertyImage_findAll_by_property st propertyId =
     (case image_fault st of
        Some e \<Rightarrow> Inl e
      | None \<Rightarrow>
          Inr (sort_key image_id
                 (filter (\<lambda>i. image_property_id i = propertyId) (property_images st))))"

section \<open>Image attachment\<close>

text \<open>\<^verbatim>\<open>propertyImageService.getImagesByProperty\<close>: a failure of the store is rethrown
  with the prefix \<^verbatim>\<open>Failed to retrieve images: \<close>.\<close>

definition getImagesByProperty :: "db \<Rightarrow> int \<Rightarrow> error + property_image list" where
  "getImagesByProperty st propertyId =
     (case PropertyImage_findAll_by_property st propertyId of
        Inl (Error m) \<Rightarrow> Inl (Error (''Failed to retrieve images: '' @ m))
      | Inr imgs \<Rightarrow> Inr imgs)"

text \<open>\<^verbatim>\<open>propertyBuilder.attachImagesToProperties\<close>: \<^verbatim>\<open>Promise.all\<close> over the properties;
  it rejects as soon as one fetch rejects and otherwise keeps the input order.\<close>

fun attachImagesToProperties :: "db \<Rightarrow> property list \<Rightarrow> error + property_with_images list" where
  "attachImagesToProperties st [] = Inr []"
| "attachImagesToProperties st (p # ps) =
     (case getImagesByProperty st (property_id p) of
        Inl e \<Rightarrow> Inl e
      | Inr imgs \<Rightarrow>
          (case attachImagesToProperties st ps of
             Inl e \<Rightarrow> Inl e
           | Inr rest \<Rightarrow>
               Inr (property.extend p (property_with_images.fields (map image_url imgs)) # rest)))"

section \<open>The property query service\<close>

text \<open>\<^verbatim>\<open>buildOrder\<close> of \<^verbatim>\<open>propertyService.js\<close>; \<open>None\<close> is an absent \<^verbatim>\<open>sortBy\<close>.\<close>

definition buildOrder :: "string option \<Rightarrow> (sort_column \<times> direction) list" where
  "buildOrder sortBy =
     (if sortBy = Some ''price_asc'' then [(ColPrice, ASC)]
      else if sortBy = Some ''price_desc'' then [(ColPrice, DESC)]
      else if sortBy = Some ''date_asc'' then [(ColCreatedAt, ASC)]
      else if sortBy = Some ''date_desc'' then [(ColCreatedAt, DESC)]
      else if sortBy = Some ''year_asc'' then [(ColYearBuilt, ASC)]
      else if sortBy = Some ''year_desc'' then [(ColYearBuilt, DESC)]
      else [])"

text \<open>
  The \<^verbatim>\<open>whereCondition\<close> object of \<^verbatim>\<open>getPropertiesDynamic\<close>. A parameter left out or
  sent as null is \<open>None\<close>. \<^verbatim>\<open>city\<close> and \<^verbatim>\<open>propertyType\<close> are tested for truthiness, so
  the empty string adds no entry; the others are tested against null. The parameters
  \<^verbatim>\<open>city\<close> and \<^verbatim>\<open>furnished\<close> are written \<open>city'\<close> and \<open>furnished'\<close>, apart from the columns.
\<close>

definition whereCondition ::
  "bool option \<Rightarrow> string option \<Rightarrow> string option \<Rightarrow> int option \<Rightarrow> int option \<Rightarrow>
   int option \<Rightarrow> int option \<Rightarrow> bool option \<Rightarrow> int option \<Rightarrow> cond list" where
  "whereCondition isRent city' propertyType minPrice maxPrice minYear maxYear furnished' userId =
     [IsApprovedEq True]
     @ (case isRent of None \<Rightarrow> [] | Some r \<Rightarrow> [IsForRentEq r])
     @ (case city' of None \<Rightarrow> [] | Some c \<Rightarrow> if c = [] then [] else [CityEq c])
     @ (case propertyType of None \<Rightarrow> [] | Some t \<Rightarrow> if t = [] then [] else [PropertyTypeEq t])
     @ (case furnished' of None \<Rightarrow> [] | Some f \<Rightarrow> [FurnishedEq f])
     @ (case userId of None \<Rightarrow> [] | Some u \<Rightarrow> [UserIdNe u])
     @ (case minYear of None \<Rightarrow> [] | Some y \<Rightarrow> [YearBuiltGte y])
     @ (case maxYear of None \<Rightarrow> [] | Some y \<Rightarrow> [YearBuiltLte y])
     @ (case minPrice of None \<Rightarrow> [] | Some x \<Rightarrow> [PriceGte x])
     @ (case maxPrice of None \<Rightarrow> [] | Some x \<Rightarrow> [PriceLte x])"

definition getPropertiesDynamic ::
  "db \<Rightarrow> bool option \<Rightarrow> string option \<Rightarrow> string option \<Rightarrow> string option \<Rightarrow>
   int option \<Rightarrow> int option \<Rightarrow> int option \<Rightarrow> int option \<Rightarrow> bool option \<Rightarrow> int option \<Rightarrow>
   error + property_with_images list" where
  "getPropertiesDynamic st isRent sortBy city' propertyType minPrice maxPrice
       minYear maxYear furnished' userId =
     (let order = buildOrder sortBy;
          w = whereCondition isRent city' propertyType minPrice maxPrice
                minYear maxYear furnished' userId
      in case (case Property_findAll st w order of
                 Inl e \<Rightarrow> Inl e
               | Inr props \<Rightarrow> attachImagesToProperties st props) of
           Inl e \<Rightarrow> Inl (Error ''Error fetching properties'')
         | Inr props \<Rightarrow> Inr props)"

definition getApprovedProperties :: "db \<Rightarrow> error + property list" where
  "getApprovedProperties st = Property_findAll st [IsApprovedEq True] [(ColCreatedAt, DESC)]"

definition getNonApprovedProperties :: "db \<Rightarrow> error + property_with_images list" where
  "getNonApprovedProperties st =
     (case (case Property_findAll st [IsApprovedEq False] [(ColCreatedAt, DESC)] of
              Inl e \<Rightarrow> Inl e
            | Inr props \<Rightarrow> attachImagesToProperties st props) of
        Inl e \<Rightarrow> Inl (Error ''Error fetching non-approved properties'')
      | Inr props \<Rightarrow> Inr props)"

definition getPropertiesByType :: "db \<Rightarrow> string \<Rightarrow> error + property list" where
  "getPropertiesByType st propertyType =
     Property_findAll st [PropertyTypeEq propertyType] [(ColCreatedAt, DESC)]"

definition getPropertiesByLocation :: "db \<Rightarrow> string \<Rightarrow> string \<Rightarrow> error + property list" where
  "getPropertiesByLocation st propertyType city' =
     (case Property_findAll st [PropertyTypeEq propertyType, CityEq city'] [(ColCreatedAt, DESC)] of
        Inl e \<Rightarrow> Inl (Error ''Error fetching properties by location'')
      | Inr props \<Rightarrow> Inr props)"

definition getPropertiesByUserId :: "db \<Rightarrow> int \<Rightarrow> error + property_with_images list" where
  "getPropertiesByUserId st user_id' =
     (case (case Property_findAll st [UserIdEq user_id'] [(ColCreatedAt, DESC)] of
              Inl e \<Rightarrow> Inl e
            | Inr props \<Rightarrow> attachImagesToProperties st props) of
        Inl e \<Rightarrow> Inl (Error ''Error fetching properties by user ID'')
      | Inr props \<Rightarrow> Inr props)"

section \<open>Single rows: lookup, create, update, approve, delete\<close>

definition Property_findByPk :: "db \<Rightarrow> int \<Rightarrow> error + property option" where
  "Property_findByPk st pk =
     (case property_fault st of
        Some e \<Rightarrow> Inl e
      | None \<Rightarrow> Inr (find (\<lambda>p. property_id p = pk) (properties st)))"

definition Property_findOne :: "db \<Rightarrow> cond list \<Rightarrow> error + property option" where
  "Property_findOne st w =
     (case property_fault st of
        Some e \<Rightarrow> Inl e
      | None \<Rightarrow> Inr (find (matches w) (properties st)))"

definition getPropertyById :: "db \<Rightarrow> int \<Rightarrow> error + property" where
  "getPropertyById st property_id' =
     (case Property_findByPk st property_id' of
        Inl e \<Rightarrow> Inl e
      | Inr None \<Rightarrow> Inl (Error ''Property not found'')
      | Inr (Some p) \<Rightarrow> Inr p)"

text \<open>
  The validators that \<^verbatim>\<open>api/models/property.js\<close> declares on the columns: \<^verbatim>\<open>min: 0\<close> on
  the five room counters, \<^verbatim>\<open>min: 1800\<close> and \<^verbatim>\<open>max:\<close> the current year on \<open>year_built\<close>.
  The counters \<open>living_rooms\<close>, \<open>balconies\<close>, \<open>parking_spaces\<close> and \<open>year_built\<close> may be
  NULL, the other attributes of an update may not.
\<close>

definition lower :: "attr \<Rightarrow> int option" where
  "lower a =
     (if a \<in> {ABedrooms, ABathrooms, ALivingRooms, ABalconies, AParkingSpaces} then Some 0
      else if a = AYearBuilt then Some 1800
      else None)"

definition upper :: "db \<Rightarrow> attr \<Rightarrow> int option" where
  "upper st a = (if a = AYearBuilt then Some (current_year st) else None)"

definition nullable_column :: "attr \<Rightarrow> bool" where
  "nullable_column a = (a \<in> {ALivingRooms, ABalconies, AParkingSpaces, AYearBuilt})"

fun field_name :: "attr \<Rightarrow> string" where
  "field_name AName = ''name''"
| "field_name ADescription = ''description''"
| "field_name ACity = ''city''"
| "field_name APrice = ''price''"
| "field_name APropertyType = ''property_type''"
| "field_name ABedrooms = ''bedrooms''"
| "field_name ABathrooms = ''bathrooms''"
| "field_name ALivingRooms = ''living_rooms''"
| "field_name ABalconies = ''balconies''"
| "field_name AParkingSpaces = ''parking_spaces''"
| "field_name AFurnished = ''furnished''"
| "field_name AYearBuilt = ''year_built''"

text \<open>
  The client library validates every attribute that is written, before anything
  is written. Its \<^verbatim>\<open>min\<close> and \<^verbatim>\<open>max\<close> read the value as a number and fail only when
  that number lies beyond the bound: a number is itself, a boolean is no number,
  a string is what \<open>str_below\<close> and \<open>str_above\<close> say. They do not run on a null value,
  which is a violation by itself in a column that may not be NULL.
\<close>

fun value_below :: "db \<Rightarrow> jsval \<Rightarrow> int \<Rightarrow> bool" where
  "value_below st (JNum n) b = (n < b)"
| "value_below st (JStr s) b = str_below st s b"
| "value_below st v b = False"

fun value_above :: "db \<Rightarrow> jsval \<Rightarrow> int \<Rightarrow> bool" where
  "value_above st (JNum n) b = (b < n)"
| "value_above st (JStr s) b = str_above st s b"
| "value_above st v b = False"

definition not_null_items :: "attr \<Rightarrow> jsval \<Rightarrow> string list" where
  "not_null_items a v =
     (if (v = JNull \<or> v = JUndefined) \<and> \<not> nullable_column a
      then [''notNull Violation: Property.'' @ field_name a @ '' cannot be null'']
      else [])"

definition validator_items :: "db \<Rightarrow> attr \<Rightarrow> jsval \<Rightarrow> string list" where
  "validator_items st a v =
     (if v = JNull \<or> v = JUndefined then []
      else
        (case lower a of
           None \<Rightarrow> []
         | Some b \<Rightarrow>
             if value_below st v b
             then [''Validation error: Validation min on '' @ field_name a @ '' failed'']
             else [])
        @ (case upper st a of
             None \<Rightarrow> []
           | Some b \<Rightarrow>
               if value_above st v b
               then [''Validation error: Validation max on '' @ field_name a @ '' failed'']
               else []))"

text \<open>
  The items of a failed validation: the null violations, then the failed
  validators, each in the order of the attributes. The message of the error
  lists them, separated by a comma and a line feed.
\<close>

definition validation_items :: "db \<Rightarrow> (attr \<times> jsval) list \<Rightarrow> string list" where
  "validation_items st avs =
     concat (map (\<lambda>(a, v). not_null_items a v) avs)
     @ concat (map (\<lambda>(a, v). validator_items st a v) avs)"

fun join_items :: "string list \<Rightarrow> string" where
  "join_items [] = []"
| "join_items [x] = x"
| "join_items (x # y # ys) = x @ '','' @ [CHR 0x0A] @ join_items (y # ys)"

text \<open>The value of an attribute of a row, as a JavaScript value.\<close>

definition nullable :: "int option \<Rightarrow> jsval" where
  "nullable v = (case v of None \<Rightarrow> JNull | Some n \<Rightarrow> JNum n)"

fun column_value :: "attr \<Rightarrow> property \<Rightarrow> jsval" where
  "column_value AName p = JStr (name p)"
| "column_value ADescription p = JStr (description p)"
| "column_value ACity p = JStr (city p)"
| "column_value APrice p = JNum (price p)"
| "column_value APropertyType p = JStr (property_type p)"
| "column_value ABedrooms p = JNum (bedrooms p)"
| "column_value ABathrooms p = JNum (bathrooms p)"
| "column_value ALivingRooms p = nullable (living_rooms p)"
| "column_value ABalconies p = nullable (balconies p)"
| "column_value AParkingSpaces p = nullable (parking_spaces p)"
| "column_value AFurnished p = JBool (furnished p)"
| "column_value AYearBuilt p = nullable (year_built p)"

definition min0 :: "int option \<Rightarrow> bool" where
  "min0 v = (case v of None \<Rightarrow> True | Some n \<Rightarrow> 0 \<le> n)"

definition valid_year :: "db \<Rightarrow> int option \<Rightarrow> bool" where
  "valid_year st v = (case v of None \<Rightarrow> True | Some y \<Rightarrow> 1800 \<le> y \<and> y \<le> current_year st)"

text \<open>The two values of the \<open>property_type\<close> enumeration.\<close>

definition valid_property_type :: "string \<Rightarrow> bool" where
  "valid_property_type t = (t = ''apartment'' \<or> t = ''villa'')"

definition validated :: "attr list" where
  "validated = [ABedrooms, ABathrooms, ALivingRooms, ABalconies, AParkingSpaces, AYearBuilt]"

text \<open>
  \<^verbatim>\<open>Property.create\<close>: the client validates the row, the store gives it the next
  primary key and appends it. A \<open>property_type\<close> outside the enumeration is left to
  the store. The \<open>property_id\<close> of the row handed in is ignored.
\<close>

definition Property_create :: "db \<Rightarrow> property \<Rightarrow> error + (property \<times> db)" where
  "Property_create st row =
     (case property_fault st of
        Some e \<Rightarrow> Inl e
      | None \<Rightarrow>
          (case validation_items st (map (\<lambda>a. (a, column_value a row)) validated) of
             x # xs \<Rightarrow> Inl (Error (join_items (x # xs)))
           | [] \<Rightarrow>
               (case (if valid_property_type (property_type row) then Inr (property_type row)
                      else to_property_type st (JStr (property_type row))) of
                  Inl e \<Rightarrow> Inl e
                | Inr t \<Rightarrow>
                    (let p = row\<lparr>property_id := next_property_id st, property_type := t\<rparr>
                     in Inr (p, st\<lparr>properties := properties st @ [p],
                                   next_property_id := next_property_id st + 1\<rparr>)))))"

text \<open>
  \<^verbatim>\<open>createProperty\<close>. Its caller hands each field of the request to the parameter
  of the same name, so the parameters have the types of their columns. The owner
  is taken to exist: the controller looks the user up before the call.
\<close>

definition createProperty ::
  "db \<Rightarrow> string \<Rightarrow> string \<Rightarrow> string \<Rightarrow> int \<Rightarrow> string \<Rightarrow> int \<Rightarrow> int \<Rightarrow> int option \<Rightarrow> int option \<Rightarrow>
   int option \<Rightarrow> int \<Rightarrow> int \<Rightarrow> bool \<Rightarrow> bool \<Rightarrow> int option \<Rightarrow> error + (property \<times> db)" where
  "createProperty st name' description' city' price' property_type' bedrooms' bathrooms'
       living_rooms' balconies' parking_spaces' square_meter' user_id' isForRent'
       furnished' year_built' =
     (case Property_findOne st [NameEq name', UserIdEq user_id'] of
        Inl e \<Rightarrow> Inl e
      | Inr (Some existingProperty) \<Rightarrow>
          Inl (Error ''Property with this name already exists for this user'')
      | Inr None \<Rightarrow>
          Property_create st
            \<lparr>property_id = 0, user_id = user_id', name = name', description = description',
             city = city', price = price', property_type = property_type',
             square_meter = square_meter', bedrooms = bedrooms', bathrooms = bathrooms',
             living_rooms = living_rooms', balconies = balconies',
             parking_spaces = parking_spaces', furnished = furnished',
             year_built = year_built', isForRent = isForRent', isApproved = False,
             created_at = now st\<rparr>)"

text \<open>
  The value of the column's type that one entry of an update puts into the
  column. A value of the column's own type is written as it is, and null is
  written to a column that may be NULL; anything else is what the store makes
  of it.
\<close>

definition string_value :: "db \<Rightarrow> attr \<Rightarrow> jsval \<Rightarrow> error + string" where
  "string_value st a v = (case v of JStr s \<Rightarrow> Inr s | _ \<Rightarrow> to_string st a v)"

definition integer_value :: "db \<Rightarrow> attr \<Rightarrow> jsval \<Rightarrow> error + int" where
  "integer_value st a v = (case v of JNum n \<Rightarrow> Inr n | _ \<Rightarrow> to_integer st a v)"

definition nullable_integer_value :: "db \<Rightarrow> attr \<Rightarrow> jsval \<Rightarrow> error + int option" where
  "nullable_integer_value st a v =
     (case v of
        JNull \<Rightarrow> Inr None
      | JNum n \<Rightarrow> Inr (Some n)
      | _ \<Rightarrow> (case to_integer st a v of Inl e \<Rightarrow> Inl e | Inr n \<Rightarrow> Inr (Some n)))"

definition boolean_value :: "db \<Rightarrow> jsval \<Rightarrow> error + bool" where
  "boolean_value st v = (case v of JBool b \<Rightarrow> Inr b | _ \<Rightarrow> to_boolean st v)"

definition property_type_value :: "db \<Rightarrow> jsval \<Rightarrow> error + string" where
  "property_type_value st v =
     (case v of
        JStr s \<Rightarrow> if valid_property_type s then Inr s else to_property_type st v
      | _ \<Rightarrow> to_property_type st v)"

text \<open>One entry of an update as the assignment it makes to a row, or the store's refusal.\<close>

definition set_attr :: "db \<Rightarrow> attr \<Rightarrow> jsval \<Rightarrow> error + (property \<Rightarrow> property)" where
  "set_attr st a v =
     (case a of
        AName \<Rightarrow>
          (case string_value st a v of Inl e \<Rightarrow> Inl e | Inr s \<Rightarrow> Inr (\<lambda>p. p\<lparr>name := s\<rparr>))
      | ADescription \<Rightarrow>
          (case string_value st a v of
             Inl e \<Rightarrow> Inl e
           | Inr s \<Rightarrow> Inr (\<lambda>p. p\<lparr>description := s\<rparr>))
      | ACity \<Rightarrow>
          (case string_value st a v of Inl e \<Rightarrow> Inl e | Inr s \<Rightarrow> Inr (\<lambda>p. p\<lparr>city := s\<rparr>))
      | APrice \<Rightarrow>
          (case integer_value st a v of Inl e \<Rightarrow> Inl e | Inr n \<Rightarrow> Inr (\<lambda>p. p\<lparr>price := n\<rparr>))
      | APropertyType \<Rightarrow>
          (case property_type_value st v of
             Inl e \<Rightarrow> Inl e
           | Inr s \<Rightarrow> Inr (\<lambda>p. p\<lparr>property_type := s\<rparr>))
      | ABedrooms \<Rightarrow>
          (case integer_value st a v of
             Inl e \<Rightarrow> Inl e
           | Inr n \<Rightarrow> Inr (\<lambda>p. p\<lparr>bedrooms := n\<rparr>))
      | ABathrooms \<Rightarrow>
          (case integer_value st a v of
             Inl e \<Rightarrow> Inl e
           | Inr n \<Rightarrow> Inr (\<lambda>p. p\<lparr>bathrooms := n\<rparr>))
      | ALivingRooms \<Rightarrow>
          (case nullable_integer_value st a v of
             Inl e \<Rightarrow> Inl e
           | Inr n \<Rightarrow> Inr (\<lambda>p. p\<lparr>living_rooms := n\<rparr>))
      | ABalconies \<Rightarrow>
          (case nullable_integer_value st a v of
             Inl e \<Rightarrow> Inl e
           | Inr n \<Rightarrow> Inr (\<lambda>p. p\<lparr>balconies := n\<rparr>))
      | AParkingSpaces \<Rightarrow>
          (case nullable_integer_value st a v of
             Inl e \<Rightarrow> Inl e
           | Inr n \<Rightarrow> Inr (\<lambda>p. p\<lparr>parking_spaces := n\<rparr>))
      | AFurnished \<Rightarrow>
          (case boolean_value st v of Inl e \<Rightarrow> Inl e | Inr b \<Rightarrow> Inr (\<lambda>p. p\<lparr>furnished := b\<rparr>))
      | AYearBuilt \<Rightarrow>
          (case nullable_integer_value st a v of
             Inl e \<Rightarrow> Inl e
           | Inr n \<Rightarrow> Inr (\<lambda>p. p\<lparr>year_built := n\<rparr>)))"

text \<open>The entries assigned in the order of the object's keys; the first refusal ends it.\<close>

fun assign_attrs :: "db \<Rightarrow> (attr \<times> jsval) list \<Rightarrow> error + (property \<Rightarrow> property)" where
  "assign_attrs st [] = Inr (\<lambda>p. p)"
| "assign_attrs st ((a, v) # avs) =
     (case set_attr st a v of
        Inl e \<Rightarrow> Inl e
      | Inr f \<Rightarrow>
          (case assign_attrs st avs of
             Inl e \<Rightarrow> Inl e
           | Inr g \<Rightarrow> Inr (\<lambda>p. g (f p))))"

text \<open>The entries of an update: validated, all of them, and then assigned.\<close>

definition set_attrs :: "db \<Rightarrow> (attr \<times> jsval) list \<Rightarrow> error + (property \<Rightarrow> property)" where
  "set_attrs st avs =
     (case validation_items st avs of
        x # xs \<Rightarrow> Inl (Error (join_items (x # xs)))
      | [] \<Rightarrow> assign_attrs st avs)"

text \<open>\<^verbatim>\<open>UPDATE ... SET ... WHERE property_id = pk\<close>.\<close>

definition update_rows :: "int \<Rightarrow> (property \<Rightarrow> property) \<Rightarrow> property list \<Rightarrow> property list" where
  "update_rows pk f rows = map (\<lambda>q. if property_id q = pk then f q else q) rows"

text \<open>
  \<^verbatim>\<open>instance.update(values)\<close>: the store's client leaves out every entry whose value
  is undefined, sets the others on the instance, validates them and writes them
  to the row of the instance.
\<close>

definition Property_update ::
  "db \<Rightarrow> property \<Rightarrow> (attr \<times> jsval) list \<Rightarrow> error + (property \<times> db)" where
  "Property_update st p vals =
     (case property_fault st of
        Some e \<Rightarrow> Inl e
      | None \<Rightarrow>
          (case set_attrs st (filter (\<lambda>(a, v). v \<noteq> JUndefined) vals) of
             Inl e \<Rightarrow> Inl e
           | Inr f \<Rightarrow>
               Inr (f p, st\<lparr>properties := update_rows (property_id p) f (properties st)\<rparr>)))"

text \<open>The object that \<^verbatim>\<open>updateProperty\<close> hands to \<^verbatim>\<open>property.update\<close>, key by key.\<close>

definition update_values ::
  "jsval \<Rightarrow> jsval \<Rightarrow> jsval \<Rightarrow> jsval \<Rightarrow> jsval \<Rightarrow> jsval \<Rightarrow> jsval \<Rightarrow> jsval \<Rightarrow> jsval \<Rightarrow>
   jsval \<Rightarrow> jsval \<Rightarrow> jsval \<Rightarrow> (attr \<times> jsval) list" where
  "update_values name' description' city' price' property_type' bedrooms' bathrooms'
       living_rooms' balconies' parking_spaces' furnished' year_built' =
     [(AName, name'), (ADescription, description'), (ACity, city'), (APrice, price'),
      (APropertyType, property_type'), (ABedrooms, bedrooms'), (ABathrooms, bathrooms'),
      (ALivingRooms, living_rooms'), (ABalconies, balconies'),
      (AParkingSpaces, parking_spaces'), (AFurnished, furnished'),
      (AYearBuilt, year_built')]"

text \<open>\<^verbatim>\<open>updateProperty\<close> of the service, with its parameters in the order of the source.\<close>

definition updateProperty ::
  "db \<Rightarrow> int \<Rightarrow> jsval \<Rightarrow> jsval \<Rightarrow> jsval \<Rightarrow> jsval \<Rightarrow> jsval \<Rightarrow> jsval \<Rightarrow> jsval \<Rightarrow> jsval \<Rightarrow> jsval \<Rightarrow>
   jsval \<Rightarrow> jsval \<Rightarrow> jsval \<Rightarrow> error + (property \<times> db)" where
  "updateProperty st property_id' name' description' city' price' property_type'
       bedrooms' bathrooms' living_rooms' balconies' parking_spaces' furnished' year_built' =
     (case Property_findByPk st property_id' of
        Inl e \<Rightarrow> Inl e
      | Inr None \<Rightarrow> Inl (Error ''Property not found'')
      | Inr (Some p) \<Rightarrow>
          Property_update st p
            (update_values name' description' city' price' property_type' bedrooms'
               bathrooms' living_rooms' balconies' parking_spaces' furnished' year_built'))"

text \<open>\<^verbatim>\<open>approveProperty\<close>: sets the flag on the instance and saves it.\<close>

definition approveProperty :: "db \<Rightarrow> int \<Rightarrow> error + (property \<times> db)" where
  "approveProperty st property_id' =
     (case Property_findByPk st property_id' of
        Inl e \<Rightarrow> Inl e
      | Inr None \<Rightarrow> Inl (Error ''Property not found'')
      | Inr (Some p) \<Rightarrow>
          Inr (p\<lparr>isApproved := True\<rparr>,
               st\<lparr>properties :=
                    update_rows (property_id p) (\<lambda>q. q\<lparr>isApproved := True\<rparr>) (properties st)\<rparr>))"

text \<open>\<^verbatim>\<open>deleteProperty\<close>: the row goes, and with it (ON DELETE CASCADE) its images.\<close>

definition deleteProperty :: "db \<Rightarrow> int \<Rightarrow> error + db" where
  "deleteProperty st property_id' =
     (case Property_findByPk st property_id' of
        Inl e \<Rightarrow> Inl e
      | Inr None \<Rightarrow> Inl (Error ''Property not found'')
      | Inr (Some p) \<Rightarrow>
          Inr (st\<lparr>properties := filter (\<lambda>q. property_id q \<noteq> property_id p) (properties st),
                  property_images :=
                    filter (\<lambda>i. image_property_id i \<noteq> property_id p) (property_images st)\<rparr>))"

section \<open>The update endpoint\<close>

text \<open>
  The body of an update request, field by field, and \<^verbatim>\<open>updateProperty\<close> of
  \<^verbatim>\<open>propertyController.js\<close>, which hands the fields to the service by position, in
  the order in which the controller writes them.
\<close>

record update_body =
  body_name :: jsval
  body_description :: jsval
  body_city :: jsval
  body_price :: jsval
  body_property_type :: jsval
  body_bedrooms :: jsval
  body_bathrooms :: jsval
  body_living_rooms :: jsval
  body_balconies :: jsval
  body_parking_spaces :: jsval
  body_year_built :: jsval
  body_furnished :: jsval

datatype response =
    Status200 string property
  | Status400 string string

definition updateProperty_controller :: "db \<Rightarrow> int \<Rightarrow> update_body \<Rightarrow> response \<times> db" where
  "updateProperty_controller st property_id' body =
     (case updateProperty st property_id' (body_name body) (body_description body)
             (body_city body) (body_price body) (body_property_type body)
             (body_bedrooms body) (body_bathrooms body) (body_living_rooms body)
             (body_balconies body) (body_parking_spaces body)
             (body_year_built body) (body_furnished body) of
        Inr (updatedProperty, st') \<Rightarrow>
          (Status200 ''Property updated successfully'' updatedProperty, st')
      | Inl (Error m) \<Rightarrow> (Status400 ''Error updating property'' m, st))"

section \<open>Histories of the store\<close>

text \<open>
  The operations that write to the store, each with its arguments; a call that
  fails leaves the store as it was. The read operations return rows and no
  store, so they are no step of a history. Between two operations the
  surroundings may change: the clock, the year, the faults, the image table.
\<close>

datatype operation =
    Create string string string int string int int "int option" "int option" "int option"
      int int bool bool "int option"
  | Update int jsval jsval jsval jsval jsval jsval jsval jsval jsval jsval jsval jsval
  | Delete int
  | Approve int
  | Surroundings int int "error option" "error option" "property_image list"

fun perform :: "operation \<Rightarrow> db \<Rightarrow> db" where
  "perform (Create n d c pr t be ba l bl pa sq u r f y) st =
     (case createProperty st n d c pr t be ba l bl pa sq u r f y of
        Inl e \<Rightarrow> st
      | Inr (p, st') \<Rightarrow> st')"
| "perform (Update k n d c pr t be ba l bl pa f y) st =
     (case updateProperty st k n d c pr t be ba l bl pa f y of
        Inl e \<Rightarrow> st
      | Inr (p, st') \<Rightarrow> st')"
| "perform (Delete k) st = (case deleteProperty st k of Inl e \<Rightarrow> st | Inr st' \<Rightarrow> st')"
| "perform (Approve k) st = (case approveProperty st k of Inl e \<Rightarrow> st | Inr (p, st') \<Rightarrow> st')"
| "perform (Surroundings t y pf imf imgs) st =
     st\<lparr>now := t, current_year := y, property_fault := pf, image_fault := imf,
        property_images := imgs\<rparr>"

fun run :: "operation list \<Rightarrow> db \<Rightarrow> db" where
  "run [] st = st"
| "run (op # ops) st = run ops (perform op st)"

text \<open>The stores that a history reaches from an empty property table.\<close>

inductive reachable :: "db \<Rightarrow> bool" where
  start: "properties st = [] \<Longrightarrow> reachable st"
| step: "reachable st \<Longrightarrow> reachable (perform op st)"

section \<open>Auxiliary definitions for the statements\<close>

text \<open>The object \<^verbatim>\<open>attachImagesToProperties\<close> builds for one row when the image query succeeds.\<close>

definition with_images :: "db \<Rightarrow> property \<Rightarrow> property_with_images" where
  "with_images st p =
     property.extend p
       (property_with_images.fields
          (map image_url
             (sort_key image_id
                (filter (\<lambda>i. image_property_id i = property_id p) (property_images st)))))"

text \<open>The rows a query returned; a failed query returned none.\<close>

definition result_set :: "error + 'a list \<Rightarrow> 'a set" where
  "result_set r = (case r of Inl e \<Rightarrow> {} | Inr rows \<Rightarrow> set rows)"

text \<open>
  The scenario of the specification: A and B approved in Beirut, C not approved
  in Tripoli, with two images of A stored out of order and one of C.
\<close>

definition blank :: property where
  "blank =
     \<lparr>property_id = 0, user_id = 1, name = ''A'', description = ''flat'', city = ''Beirut'',
      price = 100000, property_type = ''apartment'', square_meter = 120, bedrooms = 2,
      bathrooms = 1, living_rooms = Some 1, balconies = Some 0, parking_spaces = None,
      furnished = False, year_built = Some 2000, isForRent = False, isApproved = True,
      created_at = 10\<rparr>"

definition propA :: property where
  "propA = blank\<lparr>property_id := 1\<rparr>"

definition propB :: property where
  "propB = blank\<lparr>property_id := 2, user_id := 2, name := ''B'', price := 200000,
                 year_built := Some 2010, created_at := 20\<rparr>"

definition propC :: property where
  "propC = blank\<lparr>property_id := 3, name := ''C'', city := ''Tripoli'', price := 150000,
                 year_built := Some 2005, isApproved := False, created_at := 30\<rparr>"

text \<open>
  The conversions of the seeded store: a string of decimal digits is read as
  that number, by the validators and in a numeric or boolean column; a boolean
  in a numeric column is 1 or 0; a number in a boolean column is true unless it
  is 0; this store refuses every other value of a type that is not the
  column's.
\<close>

fun position :: "char \<Rightarrow> string \<Rightarrow> int option" where
  "position c [] = None"
| "position c (d # ds) = (if c = d then Some 0 else map_option (\<lambda>n. n + 1) (position c ds))"

definition digit_value :: "char \<Rightarrow> int option" where
  "digit_value c = position c ''0123456789''"

fun digits_from :: "int \<Rightarrow> string \<Rightarrow> int option" where
  "digits_from n [] = Some n"
| "digits_from n (c # cs) =
     (case digit_value c of None \<Rightarrow> None | Some d \<Rightarrow> digits_from (10 * n + d) cs)"

definition digits_value :: "string \<Rightarrow> int option" where
  "digits_value s = (if s = [] then None else digits_from 0 s)"

definition refused :: error where
  "refused = Error ''Incorrect value''"

definition seed_below :: "string \<Rightarrow> int \<Rightarrow> bool" where
  "seed_below s b = (case digits_value s of None \<Rightarrow> False | Some n \<Rightarrow> n < b)"

definition seed_above :: "string \<Rightarrow> int \<Rightarrow> bool" where
  "seed_above s b = (case digits_value s of None \<Rightarrow> False | Some n \<Rightarrow> b < n)"

definition seed_integer :: "attr \<Rightarrow> jsval \<Rightarrow> error + int" where
  "seed_integer a v =
     (case v of
        JNum n \<Rightarrow> Inr n
      | JBool b \<Rightarrow> Inr (if b then 1 else 0)
      | JStr s \<Rightarrow> (case digits_value s of None \<Rightarrow> Inl refused | Some n \<Rightarrow> Inr n)
      | _ \<Rightarrow> Inl refused)"

definition seed_boolean :: "jsval \<Rightarrow> error + bool" where
  "seed_boolean v =
     (case v of
        JBool b \<Rightarrow> Inr b
      | JNum n \<Rightarrow> Inr (n \<noteq> 0)
      | JStr s \<Rightarrow> (case digits_value s of None \<Rightarrow> Inl refused | Some n \<Rightarrow> Inr (n \<noteq> 0))
      | _ \<Rightarrow> Inl refused)"

definition seed_string :: "attr \<Rightarrow> jsval \<Rightarrow> error + string" where
  "seed_string a v = (case v of JStr s \<Rightarrow> Inr s | _ \<Rightarrow> Inl refused)"

definition seed_property_type :: "jsval \<Rightarrow> error + string" where
  "seed_property_type v = Inl refused"

definition seed :: db where
  "seed =
     \<lparr>properties = [propA, propB, propC],
      property_images =
        [\<lparr>image_id = 5, image_url = ''a2.jpg'', image_property_id = 1\<rparr>,
         \<lparr>image_id = 7, image_url = ''c1.jpg'', image_property_id = 3\<rparr>,
         \<lparr>image_id = 4, image_url = ''a1.jpg'', image_property_id = 1\<rparr>],
      next_property_id = 4, now = 40, current_year = 2025,
      property_fault = None, image_fault = None,
      str_below = seed_below, str_above = seed_above, to_string = seed_string,
      to_integer = seed_integer, to_boolean = seed_boolean,
      to_property_type = seed_property_type\<rparr>"

text \<open>The seeded store with one more approved listing, E in Tripoli.\<close>

definition propE :: property where
  "propE = blank\<lparr>property_id := 5, user_id := 3, name := ''E'', city := ''Tripoli'',
                 price := 180000, year_built := Some 2015, created_at := 50\<rparr>"

definition town :: db where
  "town = seed\<lparr>properties := [propA, propB, propC, propE], next_property_id := 6\<rparr>"

text \<open>The seeded store with the property table unreachable.\<close>

definition down :: db where
  "down = seed\<lparr>property_fault := Some (Error ''connect ECONNREFUSED'')\<rparr>"


text \<open>The six columns that are not among the attributes of an update.\<close>

definition frame_of :: "property \<Rightarrow> int \<times> int \<times> bool \<times> bool \<times> int \<times> int" where
  "frame_of p =
     (property_id p, user_id p, isApproved p, isForRent p, square_meter p, created_at p)"

text \<open>The values that are of the type of an attribute's column.\<close>

definition own_typed :: "attr \<Rightarrow> jsval \<Rightarrow> bool" where
  "own_typed a v =
     (case v of
        JStr s \<Rightarrow>
          a \<in> {AName, ADescription, ACity} \<or> (a = APropertyType \<and> valid_property_type s)
      | JNum n \<Rightarrow>
          a \<in> {APrice, ABedrooms, ABathrooms, ALivingRooms, ABalconies, AParkingSpaces,
                AYearBuilt}
      | JBool b \<Rightarrow> a = AFurnished
      | JNull \<Rightarrow> nullable_column a
      | JUndefined \<Rightarrow> False)"

text \<open>An update request that supplies \<^verbatim>\<open>year_built: 2005\<close> and \<^verbatim>\<open>furnished: true\<close> and
  nothing else.\<close>

definition year_and_furnished :: update_body where
  "year_and_furnished =
     \<lparr>body_name = JUndefined, body_description = JUndefined, body_city = JUndefined,
      body_price = JUndefined, body_property_type = JUndefined, body_bedrooms = JUndefined,
      body_bathrooms = JUndefined, body_living_rooms = JUndefined,
      body_balconies = JUndefined, body_parking_spaces = JUndefined,
      body_year_built = JNum 2005, body_furnished = JBool True\<rparr>"

text \<open>The row that a villa named A of owner 7 becomes when created on the seeded store.\<close>

definition propD :: property where
  "propD = \<lparr>property_id = 4, user_id = 7, name = ''A'', description = ''d'',
         city = ''Beirut'', price = 5, property_type = ''villa'',
         square_meter = 50, bedrooms = 1, bathrooms = 1,
         living_rooms = None, balconies = None, parking_spaces = None,
         furnished = False, year_built = Some 1999, isForRent = False,
         isApproved = False, created_at = 40\<rparr>"

text \<open>
  The primary key at work: every row's key lies below the AUTO_INCREMENT counter
  and no two rows share a key.
\<close>

definition keys_ok :: "db \<Rightarrow> bool" where
  "keys_ok st =
     (list_all (\<lambda>p. property_id p < next_property_id st) (properties st) \<and>
      distinct (map property_id (properties st)))"

text \<open>Every row of the table that has the key \<open>k\<close> is approved (none, once deleted).\<close>

definition approved_at :: "db \<Rightarrow> int \<Rightarrow> bool" where
  "approved_at st k = list_all (\<lambda>q. property_id q = k \<longrightarrow> isApproved q) (properties st)"

text \<open>
  A history: on an empty store, owner 1 lists A and an administrator approves
  it; later its price is updated, owner 2 lists B, an approval of a missing
  property fails, and B is deleted.
\<close>

definition fresh :: db where
  "fresh = seed\<lparr>properties := [], property_images := [], next_property_id := 1\<rparr>"

definition pending :: db where
  "pending =
     run [Create ''A'' ''flat'' ''Beirut'' 100000 ''apartment'' 2 1 (Some 1) (Some 0) None 120 1
            False False (Some 2000)] fresh"

definition listed :: db where
  "listed = run [Approve 1] pending"

definition later :: "operation list" where
  "later =
     [Update 1 JUndefined JUndefined JUndefined (JNum 120000) JUndefined JUndefined JUndefined
        JUndefined JUndefined JUndefined JUndefined JUndefined,
      Create ''B'' ''flat'' ''Beirut'' 200000 ''apartment'' 2 1 (Some 1) (Some 0) None 120 2
        False False (Some 2010),
      Approve 5,
      Delete 2]"

definition listedA :: property where
  "listedA = blank\<lparr>property_id := 1, created_at := 40\<rparr>"

section \<open>Basic facts\<close>

lemma extend_truncate [simp]: "property.truncate (property.extend p x) = p"
  by (simp add: property.defs)

lemma holds_extend [simp]: "holds c (property.extend p x) = holds c p"
  by (cases c) (simp_all add: property.defs)

lemma matches_extend [simp]: "matches w (property.extend p x) = matches w p"
  by (simp add: matches_def)

lemma truncate_with_images [simp]: "property.truncate (with_images st p) = p"
  by (simp add: with_images_def)

lemma matches_with_images [simp]: "matches w (with_images st p) = matches w p"
  by (simp add: with_images_def)

lemma sel_with_images [simp]:
  "isApproved (with_images st p) = isApproved p"
  "price (with_images st p) = price p"
  "created_at (with_images st p) = created_at p"
  "year_built (with_images st p) = year_built p"
  "property_id (with_images st p) = property_id p"
  by (simp_all add: with_images_def property.defs)

lemma inj_with_images: "inj (with_images st)"
  by (rule inj_on_inverseI [where g = property.truncate]) simp

lemma set_sortAsc [simp]: "set (sortAsc c rows) = set rows"
  by (cases c) (simp_all add: sortAsc_def)

lemma set_orderRows [simp]: "set (orderRows ord rows) = set rows"
  by (induction ord rows rule: orderRows.induct) simp_all

lemma attach_Inr:
  "attachImagesToProperties st ps = Inr rs \<Longrightarrow> rs = map (with_images st) ps"
proof (induction ps arbitrary: rs)
  case Nil
  then show ?case by simp
next
  case (Cons p ps)
  then show ?case
    by (auto simp: with_images_def getImagesByProperty_def PropertyImage_findAll_by_property_def
        split: sum.splits option.splits error.splits)
qed

lemma attach_ok:
  "image_fault st = None \<Longrightarrow> attachImagesToProperties st ps = Inr (map (with_images st) ps)"
  by (induction ps)
    (simp_all add: with_images_def getImagesByProperty_def PropertyImage_findAll_by_property_def)

lemma findAll_ok:
  "property_fault st = None \<Longrightarrow>
   Property_findAll st w ord = Inr (orderRows ord (filter (matches w) (properties st)))"
  by (simp add: Property_findAll_def)

lemma findAll_Inr:
  "Property_findAll st w ord = Inr rows \<Longrightarrow>
   rows = orderRows ord (filter (matches w) (properties st))"
  by (simp add: Property_findAll_def split: option.splits)

lemma dynamic_Inr:
  assumes "getPropertiesDynamic st isRent sortBy city' propertyType minPrice maxPrice
             minYear maxYear furnished' userId = Inr rs"
  shows "rs = map (with_images st)
           (orderRows (buildOrder sortBy)
              (filter (matches (whereCondition isRent city' propertyType minPrice maxPrice
                                 minYear maxYear furnished' userId))
                 (properties st)))"
  using assms
  by (auto simp: getPropertiesDynamic_def Let_def split: sum.splits
      dest!: findAll_Inr attach_Inr)

lemma dynamic_ok:
  assumes "property_fault st = None" "image_fault st = None"
  shows "getPropertiesDynamic st isRent sortBy city' propertyType minPrice maxPrice
             minYear maxYear furnished' userId =
         Inr (map (with_images st)
           (orderRows (buildOrder sortBy)
              (filter (matches (whereCondition isRent city' propertyType minPrice maxPrice
                                 minYear maxYear furnished' userId))
                 (properties st))))"
  using assms by (simp add: getPropertiesDynamic_def Let_def findAll_ok attach_ok)

lemma whereCondition_approved:
  "matches (whereCondition isRent city' propertyType minPrice maxPrice
              minYear maxYear furnished' userId) p \<Longrightarrow> isApproved p"
  by (simp add: whereCondition_def matches_def)

section \<open>The filter as a conjunction\<close>

lemma matches_whereCondition:
  "matches (whereCondition isRent city' propertyType minPrice maxPrice
              minYear maxYear furnished' userId) p =
   (isApproved p \<and>
    matches (case isRent of None \<Rightarrow> [] | Some r \<Rightarrow> [IsForRentEq r]) p \<and>
    matches (case city' of None \<Rightarrow> [] | Some c \<Rightarrow> if c = [] then [] else [CityEq c]) p \<and>
    matches (case propertyType of None \<Rightarrow> []
             | Some t \<Rightarrow> if t = [] then [] else [PropertyTypeEq t]) p \<and>
    matches (case furnished' of None \<Rightarrow> [] | Some f \<Rightarrow> [FurnishedEq f]) p \<and>
    matches (case userId of None \<Rightarrow> [] | Some u \<Rightarrow> [UserIdNe u]) p \<and>
    matches (case minYear of None \<Rightarrow> [] | Some y \<Rightarrow> [YearBuiltGte y]) p \<and>
    matches (case maxYear of None \<Rightarrow> [] | Some y \<Rightarrow> [YearBuiltLte y]) p \<and>
    matches (case minPrice of None \<Rightarrow> [] | Some x \<Rightarrow> [PriceGte x]) p \<and>
    matches (case maxPrice of None \<Rightarrow> [] | Some x \<Rightarrow> [PriceLte x]) p)"
  by (simp add: whereCondition_def matches_def)

lemma matches_Nil [simp]: "matches [] p"
  by (simp add: matches_def)

lemma matches_single [simp]: "matches [c] p = holds c p"
  by (simp add: matches_def)

lemma with_images_eq_iff [simp]: "with_images st x = with_images st y \<longleftrightarrow> x = y"
  using inj_with_images [of st] by (auto dest: injD)

lemma matches_parts:
  "matches (case isRent of None \<Rightarrow> [] | Some r \<Rightarrow> [IsForRentEq r]) p =
     (\<forall>r. isRent = Some r \<longrightarrow> isForRent p = r)"
  "matches (case city' of None \<Rightarrow> [] | Some c \<Rightarrow> if c = [] then [] else [CityEq c]) p =
     (\<forall>c. city' = Some c \<longrightarrow> c \<noteq> [] \<longrightarrow> city p = c)"
  "matches (case propertyType of None \<Rightarrow> []
            | Some t \<Rightarrow> if t = [] then [] else [PropertyTypeEq t]) p =
     (\<forall>t. propertyType = Some t \<longrightarrow> t \<noteq> [] \<longrightarrow> property_type p = t)"
  "matches (case furnished' of None \<Rightarrow> [] | Some f \<Rightarrow> [FurnishedEq f]) p =
     (\<forall>f. furnished' = Some f \<longrightarrow> furnished p = f)"
  "matches (case userId of None \<Rightarrow> [] | Some u \<Rightarrow> [UserIdNe u]) p =
     (\<forall>u. userId = Some u \<longrightarrow> user_id p \<noteq> u)"
  "matches (case minYear of None \<Rightarrow> [] | Some y \<Rightarrow> [YearBuiltGte y]) p =
     (\<forall>y. minYear = Some y \<longrightarrow> (\<exists>v. year_built p = Some v \<and> y \<le> v))"
  "matches (case maxYear of None \<Rightarrow> [] | Some y \<Rightarrow> [YearBuiltLte y]) p =
     (\<forall>y. maxYear = Some y \<longrightarrow> (\<exists>v. year_built p = Some v \<and> v \<le> y))"
  "matches (case minPrice of None \<Rightarrow> [] | Some x \<Rightarrow> [PriceGte x]) p =
     (\<forall>x. minPrice = Some x \<longrightarrow> x \<le> price p)"
  "matches (case maxPrice of None \<Rightarrow> [] | Some x \<Rightarrow> [PriceLte x]) p =
     (\<forall>x. maxPrice = Some x \<longrightarrow> price p \<le> x)"
proof -
  show "matches (case isRent of None \<Rightarrow> [] | Some r \<Rightarrow> [IsForRentEq r]) p =
     (\<forall>r. isRent = Some r \<longrightarrow> isForRent p = r)"
    by (cases isRent) simp_all
  show "matches (case city' of None \<Rightarrow> [] | Some c \<Rightarrow> if c = [] then [] else [CityEq c]) p =
     (\<forall>c. city' = Some c \<longrightarrow> c \<noteq> [] \<longrightarrow> city p = c)"
    by (cases city') simp_all
  show "matches (case propertyType of None \<Rightarrow> []
            | Some t \<Rightarrow> if t = [] then [] else [PropertyTypeEq t]) p =
     (\<forall>t. propertyType = Some t \<longrightarrow> t \<noteq> [] \<longrightarrow> property_type p = t)"
    by (cases propertyType) simp_all
  show "matches (case furnished' of None \<Rightarrow> [] | Some f \<Rightarrow> [FurnishedEq f]) p =
     (\<forall>f. furnished' = Some f \<longrightarrow> furnished p = f)"
    by (cases furnished') simp_all
  show "matches (case userId of None \<Rightarrow> [] | Some u \<Rightarrow> [UserIdNe u]) p =
     (\<forall>u. userId = Some u \<longrightarrow> user_id p \<noteq> u)"
    by (cases userId) simp_all
  show "matches (case minYear of None \<Rightarrow> [] | Some y \<Rightarrow> [YearBuiltGte y]) p =
     (\<forall>y. minYear = Some y \<longrightarrow> (\<exists>v. year_built p = Some v \<and> y \<le> v))"
    by (cases minYear; cases "year_built p") simp_all
  show "matches (case maxYear of None \<Rightarrow> [] | Some y \<Rightarrow> [YearBuiltLte y]) p =
     (\<forall>y. maxYear = Some y \<longrightarrow> (\<exists>v. year_built p = Some v \<and> v \<le> y))"
    by (cases maxYear; cases "year_built p") simp_all
  show "matches (case minPrice of None \<Rightarrow> [] | Some x \<Rightarrow> [PriceGte x]) p =
     (\<forall>x. minPrice = Some x \<longrightarrow> x \<le> price p)"
    by (cases minPrice) simp_all
  show "matches (case maxPrice of None \<Rightarrow> [] | Some x \<Rightarrow> [PriceLte x]) p =
     (\<forall>x. maxPrice = Some x \<longrightarrow> price p \<le> x)"
    by (cases maxPrice) simp_all
qed

lemma result_set_dynamic_ok:
  assumes "property_fault st = None" "image_fault st = None"
  shows "result_set (getPropertiesDynamic st isRent sortBy city' propertyType minPrice maxPrice
             minYear maxYear furnished' userId) =
         with_images st ` {p \<in> set (properties st).
            matches (whereCondition isRent city' propertyType minPrice maxPrice
                       minYear maxYear furnished' userId) p}"
  by (simp add: dynamic_ok [OF assms] result_set_def)

lemma result_set_dynamic_fault:
  assumes "property_fault st \<noteq> None \<or> image_fault st \<noteq> None"
  shows "result_set (getPropertiesDynamic st isRent sortBy city' propertyType minPrice maxPrice
             minYear maxYear furnished' userId) = {}"
proof (cases "property_fault st")
  case (Some e)
  then show ?thesis
    by (simp add: getPropertiesDynamic_def Property_findAll_def result_set_def)
next
  case None
  with assms obtain e where e: "image_fault st = Some e" by auto
  have "attachImagesToProperties st ps = Inr rs \<Longrightarrow> rs = []" for ps rs
    using e
    by (cases ps) (auto simp: getImagesByProperty_def PropertyImage_findAll_by_property_def
        split: sum.splits error.splits)
  then show ?thesis
    by (auto simp: getPropertiesDynamic_def Let_def result_set_def split: sum.splits)
qed


lemma image_Collect_Int:
  "with_images st ` {p \<in> A. P p} \<inter> with_images st ` {p \<in> A. Q p} =
   with_images st ` {p \<in> A. P p \<and> Q p}"
  by auto

lemma image_Collect_restrict:
  "{r \<in> with_images st ` {p \<in> A. P p}. Q r} =
   with_images st ` {p \<in> A. P p \<and> Q (with_images st p)}"
  by auto

section \<open>Ordering of the rows\<close>

lemma sorted_sortAsc:
  "sorted_wrt (\<lambda>a b. price a \<le> price b) (sortAsc ColPrice rows)"
  "sorted_wrt (\<lambda>a b. created_at a \<le> created_at b) (sortAsc ColCreatedAt rows)"
  "sorted_wrt (\<lambda>a b. year_built a \<le> year_built b) (sortAsc ColYearBuilt rows)"
  using sorted_sort_key [of price rows] sorted_sort_key [of created_at rows]
    sorted_sort_key [of year_built rows]
  by (simp_all only: sortAsc_def sort_column.case sorted_map)

lemma sorted_sortDesc:
  "sorted_wrt (\<lambda>a b. price b \<le> price a) (rev (sortAsc ColPrice rows))"
  "sorted_wrt (\<lambda>a b. created_at b \<le> created_at a) (rev (sortAsc ColCreatedAt rows))"
  "sorted_wrt (\<lambda>a b. year_built b \<le> year_built a) (rev (sortAsc ColYearBuilt rows))"
  using sorted_sortAsc [of rows] by (simp_all only: sorted_wrt_rev)

lemma sorted_wrt_with_images:
  "sorted_wrt (\<lambda>a b. price a \<le> price b) (map (with_images st) rows) =
     sorted_wrt (\<lambda>a b. price a \<le> price b) rows"
  "sorted_wrt (\<lambda>a b. price b \<le> price a) (map (with_images st) rows) =
     sorted_wrt (\<lambda>a b. price b \<le> price a) rows"
  "sorted_wrt (\<lambda>a b. created_at a \<le> created_at b) (map (with_images st) rows) =
     sorted_wrt (\<lambda>a b. created_at a \<le> created_at b) rows"
  "sorted_wrt (\<lambda>a b. created_at b \<le> created_at a) (map (with_images st) rows) =
     sorted_wrt (\<lambda>a b. created_at b \<le> created_at a) rows"
  "sorted_wrt (\<lambda>a b. year_built a \<le> year_built b) (map (with_images st) rows) =
     sorted_wrt (\<lambda>a b. year_built a \<le> year_built b) rows"
  "sorted_wrt (\<lambda>a b. year_built b \<le> year_built a) (map (with_images st) rows) =
     sorted_wrt (\<lambda>a b. year_built b \<le> year_built a) rows"
  by (simp_all only: sorted_wrt_map sel_with_images)

lemma mset_sortAsc [simp]: "mset (sortAsc c rows) = mset rows"
  by (cases c) (simp_all add: sortAsc_def)

lemma mset_orderRows [simp]: "mset (orderRows ord rows) = mset rows"
  by (induction ord rows rule: orderRows.induct) simp_all

lemma map_truncate_with_images:
  "map property.truncate (map (with_images st) rows) = rows"
  by (induction rows) simp_all

lemma buildOrder_simps:
  "buildOrder (Some ''price_asc'') = [(ColPrice, ASC)]"
  "buildOrder (Some ''price_desc'') = [(ColPrice, DESC)]"
  "buildOrder (Some ''date_asc'') = [(ColCreatedAt, ASC)]"
  "buildOrder (Some ''date_desc'') = [(ColCreatedAt, DESC)]"
  "buildOrder (Some ''year_asc'') = [(ColYearBuilt, ASC)]"
  "buildOrder (Some ''year_desc'') = [(ColYearBuilt, DESC)]"
  by (simp_all add: buildOrder_def)

lemma buildOrder_other:
  "sortBy \<notin> {Some ''price_asc'', Some ''price_desc'', Some ''date_asc'', Some ''date_desc'',
              Some ''year_asc'', Some ''year_desc''} \<Longrightarrow> buildOrder sortBy = []"
  by (simp add: buildOrder_def)

section \<open>Attached images and failing stores\<close>

lemma images_with_images:
  "images (with_images st p) =
     map image_url (sort_key image_id
        (filter (\<lambda>i. image_property_id i = property_id p) (property_images st)))"
  by (simp add: with_images_def property.defs property_with_images.defs)

lemma attach_fault:
  "image_fault st = Some e \<Longrightarrow> ps \<noteq> [] \<Longrightarrow> \<exists>e'. attachImagesToProperties st ps = Inl e'"
  by (cases ps; cases e)
    (simp_all add: getImagesByProperty_def PropertyImage_findAll_by_property_def)

section \<open>Creating and updating a row\<close>

lemmas create_defs =
  Property_create_def validation_items_def validated_def not_null_items_def
  validator_items_def lower_def upper_def nullable_column_def nullable_def
  valid_property_type_def min0_def valid_year_def

lemmas update_defs =
  set_attrs_def validation_items_def not_null_items_def validator_items_def lower_def
  upper_def nullable_column_def set_attr_def string_value_def integer_value_def
  nullable_integer_value_def boolean_value_def property_type_value_def
  valid_property_type_def

lemma findOne_conflict:
  "property_fault st = None \<Longrightarrow>
   (\<exists>q \<in> set (properties st). name q = n \<and> user_id q = u) \<Longrightarrow>
   \<exists>q. Property_findOne st [NameEq n, UserIdEq u] = Inr (Some q)"
  by (cases "find (matches [NameEq n, UserIdEq u]) (properties st)")
    (auto simp: Property_findOne_def matches_def find_None_iff)

lemma findOne_free:
  "property_fault st = None \<Longrightarrow>
   (\<forall>q \<in> set (properties st). name q = n \<longrightarrow> user_id q \<noteq> u) \<Longrightarrow>
   Property_findOne st [NameEq n, UserIdEq u] = Inr None"
  by (auto simp: Property_findOne_def matches_def find_None_iff)

lemma set_attr_cases:
  assumes "set_attr st a v = Inr f"
  shows "(a = AName \<and> (\<exists>s. string_value st a v = Inr s \<and> f = (\<lambda>p. p\<lparr>name := s\<rparr>))) \<or>
    (a = ADescription \<and> (\<exists>s. string_value st a v = Inr s \<and> f = (\<lambda>p. p\<lparr>description := s\<rparr>))) \<or>
    (a = ACity \<and> (\<exists>s. string_value st a v = Inr s \<and> f = (\<lambda>p. p\<lparr>city := s\<rparr>))) \<or>
    (a = APrice \<and> (\<exists>n. integer_value st a v = Inr n \<and> f = (\<lambda>p. p\<lparr>price := n\<rparr>))) \<or>
    (a = APropertyType \<and>
       (\<exists>s. property_type_value st v = Inr s \<and> f = (\<lambda>p. p\<lparr>property_type := s\<rparr>))) \<or>
    (a = ABedrooms \<and> (\<exists>n. integer_value st a v = Inr n \<and> f = (\<lambda>p. p\<lparr>bedrooms := n\<rparr>))) \<or>
    (a = ABathrooms \<and> (\<exists>n. integer_value st a v = Inr n \<and> f = (\<lambda>p. p\<lparr>bathrooms := n\<rparr>))) \<or>
    (a = ALivingRooms \<and>
       (\<exists>n. nullable_integer_value st a v = Inr n \<and> f = (\<lambda>p. p\<lparr>living_rooms := n\<rparr>))) \<or>
    (a = ABalconies \<and>
       (\<exists>n. nullable_integer_value st a v = Inr n \<and> f = (\<lambda>p. p\<lparr>balconies := n\<rparr>))) \<or>
    (a = AParkingSpaces \<and>
       (\<exists>n. nullable_integer_value st a v = Inr n \<and> f = (\<lambda>p. p\<lparr>parking_spaces := n\<rparr>))) \<or>
    (a = AFurnished \<and> (\<exists>b. boolean_value st v = Inr b \<and> f = (\<lambda>p. p\<lparr>furnished := b\<rparr>))) \<or>
    (a = AYearBuilt \<and>
       (\<exists>n. nullable_integer_value st a v = Inr n \<and> f = (\<lambda>p. p\<lparr>year_built := n\<rparr>)))"
  using assms by (cases a) (auto simp: set_attr_def split: sum.splits)

lemma set_attr_frame: "set_attr st a v = Inr f \<Longrightarrow> frame_of (f p) = frame_of p"
  by (drule set_attr_cases) (auto simp: frame_of_def)

lemma assign_attrs_frame: "assign_attrs st avs = Inr f \<Longrightarrow> frame_of (f p) = frame_of p"
proof (induction avs arbitrary: f p)
  case Nil
  then show ?case by auto
next
  case (Cons av avs)
  obtain a v where av: "av = (a, v)" by (cases av)
  from Cons.prems obtain g h where g: "set_attr st a v = Inr g"
    and h: "assign_attrs st avs = Inr h" and f: "f = (\<lambda>p. h (g p))"
    by (auto simp: av split: sum.splits)
  show ?case
    by (simp add: f Cons.IH [OF h] set_attr_frame [OF g])
qed

lemma set_attrs_Inr: "set_attrs st avs = Inr f \<Longrightarrow> assign_attrs st avs = Inr f"
  by (cases "validation_items st avs") (simp_all add: set_attrs_def)

lemma set_attrs_frame: "set_attrs st avs = Inr f \<Longrightarrow> frame_of (f p) = frame_of p"
  by (rule assign_attrs_frame [OF set_attrs_Inr])

lemma update_rows_frame:
  "(\<And>q. frame_of (f q) = frame_of q) \<Longrightarrow>
   map frame_of (update_rows k f rows) = map frame_of rows"
  by (induction rows) (simp_all add: update_rows_def)

lemma find_pk: "find (\<lambda>p. property_id p = k) rows = Some p \<Longrightarrow> p \<in> set rows \<and> property_id p = k"
  by (induction rows) (auto split: if_splits)

lemma Property_update_Inr:
  assumes "Property_update st p vals = Inr (p', st')"
  shows "\<exists>g. set_attrs st (filter (\<lambda>(a, v). v \<noteq> JUndefined) vals) = Inr g \<and>
           p' = g p \<and> st' = st\<lparr>properties := update_rows (property_id p) g (properties st)\<rparr>"
  using assms unfolding Property_update_def
  by (cases "property_fault st";
      cases "set_attrs st (filter (\<lambda>(a, v). v \<noteq> JUndefined) vals)") auto

lemma updateProperty_Inr:
  assumes "updateProperty st k n d c pr t be ba l bl pa f y = Inr (p', st')"
  shows "\<exists>p g. find (\<lambda>p. property_id p = k) (properties st) = Some p \<and>
           set_attrs st (filter (\<lambda>(a, v). v \<noteq> JUndefined)
             (update_values n d c pr t be ba l bl pa f y)) = Inr g \<and>
           p' = g p \<and> st' = st\<lparr>properties := update_rows k g (properties st)\<rparr>"
proof -
  from assms obtain p where p: "find (\<lambda>p. property_id p = k) (properties st) = Some p"
    and u: "Property_update st p (update_values n d c pr t be ba l bl pa f y) = Inr (p', st')"
    by (simp add: updateProperty_def Property_findByPk_def split: option.splits)
  from find_pk [OF p] have k: "property_id p = k" by simp
  from Property_update_Inr [OF u] p k show ?thesis by auto
qed

text \<open>
  The service's \<^verbatim>\<open>updateProperty\<close>, taken by itself, updates partially: an attribute
  whose parameter is undefined keeps its value, and an attribute whose parameter
  is a value of the column's type takes that value.
\<close>

lemma set_attr_other:
  "set_attr st a v = Inr f \<Longrightarrow> b \<noteq> a \<Longrightarrow> column_value b (f p) = column_value b p"
  by (drule set_attr_cases, cases b) auto

lemma set_attr_own:
  assumes "set_attr st a v = Inr f" and "own_typed a v"
  shows "column_value a (f p) = v"
proof (cases a)
  case AName
  with assms show ?thesis
    by (cases v) (auto simp: set_attr_def own_typed_def nullable_column_def string_value_def split: sum.splits)
next
  case ADescription
  with assms show ?thesis
    by (cases v) (auto simp: set_attr_def own_typed_def nullable_column_def string_value_def split: sum.splits)
next
  case ACity
  with assms show ?thesis
    by (cases v) (auto simp: set_attr_def own_typed_def nullable_column_def string_value_def split: sum.splits)
next
  case APrice
  with assms show ?thesis
    by (cases v) (auto simp: set_attr_def own_typed_def nullable_column_def integer_value_def split: sum.splits)
next
  case APropertyType
  with assms show ?thesis
    by (cases v)
      (auto simp: set_attr_def own_typed_def nullable_column_def property_type_value_def
        split: sum.splits if_splits)
next
  case ABedrooms
  with assms show ?thesis
    by (cases v) (auto simp: set_attr_def own_typed_def nullable_column_def integer_value_def split: sum.splits)
next
  case ABathrooms
  with assms show ?thesis
    by (cases v) (auto simp: set_attr_def own_typed_def nullable_column_def integer_value_def split: sum.splits)
next
  case ALivingRooms
  with assms show ?thesis
    by (cases v)
      (auto simp: set_attr_def own_typed_def nullable_integer_value_def nullable_def
        nullable_column_def split: sum.splits)
next
  case ABalconies
  with assms show ?thesis
    by (cases v)
      (auto simp: set_attr_def own_typed_def nullable_integer_value_def nullable_def
        nullable_column_def split: sum.splits)
next
  case AParkingSpaces
  with assms show ?thesis
    by (cases v)
      (auto simp: set_attr_def own_typed_def nullable_integer_value_def nullable_def
        nullable_column_def split: sum.splits)
next
  case AFurnished
  with assms show ?thesis
    by (cases v) (auto simp: set_attr_def own_typed_def nullable_column_def boolean_value_def split: sum.splits)
next
  case AYearBuilt
  with assms show ?thesis
    by (cases v)
      (auto simp: set_attr_def own_typed_def nullable_integer_value_def nullable_def
        nullable_column_def split: sum.splits)
qed

lemma set_attr_column:
  "set_attr st a v = Inr f \<Longrightarrow>
   (own_typed a v \<longrightarrow> column_value a (f p) = v) \<and>
   (b \<noteq> a \<longrightarrow> column_value b (f p) = column_value b p)"
  by (simp add: set_attr_own set_attr_other)

lemma assign_attrs_column:
  "assign_attrs st avs = Inr g \<Longrightarrow> distinct (map fst avs) \<Longrightarrow>
   (case map_of avs b of
      None \<Rightarrow> column_value b (g p) = column_value b p
    | Some v \<Rightarrow> own_typed b v \<longrightarrow> column_value b (g p) = v)"
proof (induction avs arbitrary: g p)
  case Nil
  then show ?case by auto
next
  case (Cons av avs)
  obtain a v where av: "av = (a, v)" by (cases av)
  from Cons.prems(1) obtain f h where f: "set_attr st a v = Inr f"
    and h: "assign_attrs st avs = Inr h" and g: "g = (\<lambda>p. h (f p))"
    by (auto simp: av split: sum.splits)
  from Cons.prems(2) have d: "distinct (map fst avs)" and na: "a \<notin> fst ` set avs"
    by (simp_all add: av)
  from na have m: "map_of avs a = None"
    by (simp add: map_of_eq_None_iff)
  show ?case
  proof (cases "b = a")
    case True
    then show ?thesis
      using Cons.IH [OF h d, where p = "f p"] set_attr_column [OF f, where p = p and b = a]
      by (simp add: av g m)
  next
    case False
    then show ?thesis
      using Cons.IH [OF h d, where p = "f p"] set_attr_column [OF f, where p = p and b = b]
      by (simp add: av g split: option.splits)
  qed
qed

lemma map_of_filter_value:
  "distinct (map fst avs) \<Longrightarrow> (a, v) \<in> set avs \<Longrightarrow>
   map_of (filter (\<lambda>(a, v). P v) avs) a = (if P v then Some v else None)"
proof (induction avs)
  case Nil
  then show ?case by simp
next
  case (Cons av avs)
  obtain a' v' where av: "av = (a', v')" by (cases av)
  show ?case
  proof (cases "(a, v) = (a', v')")
    case True
    with Cons.prems(1) have "a \<notin> fst ` set (filter (\<lambda>(a, v). P v) avs)"
      by (auto simp: av)
    then have "map_of (filter (\<lambda>(a, v). P v) avs) a = None"
      by (simp add: map_of_eq_None_iff)
    with True show ?thesis by (simp add: av)
  next
    case False
    with Cons.prems have in_tl: "(a, v) \<in> set avs" and ne: "a \<noteq> a'"
      by (auto simp: av rev_image_eqI)
    from Cons.prems(1) have "distinct (map fst avs)" by simp
    from Cons.IH [OF this in_tl] ne show ?thesis by (simp add: av)
  qed
qed

lemma distinct_update_values:
  "distinct (map fst (update_values n d c pr t be ba l bl pa f y))"
  by (simp add: update_values_def)

lemma updateProperty_partial:
  assumes "updateProperty st k n d c pr t be ba l bl pa f y = Inr (p', st')"
  shows "\<exists>p g. find (\<lambda>p. property_id p = k) (properties st) = Some p \<and> p' = g p \<and>
           properties st' = update_rows k g (properties st) \<and>
           (\<forall>q. \<forall>(a, v) \<in> set (update_values n d c pr t be ba l bl pa f y).
              (v = JUndefined \<longrightarrow> column_value a (g q) = column_value a q) \<and>
              (own_typed a v \<longrightarrow> column_value a (g q) = v))"
proof -
  let ?vals = "update_values n d c pr t be ba l bl pa f y"
  from updateProperty_Inr [OF assms] obtain p g where
    p: "find (\<lambda>p. property_id p = k) (properties st) = Some p"
    and g: "set_attrs st (filter (\<lambda>(a, v). v \<noteq> JUndefined) ?vals) = Inr g"
    and p': "p' = g p" and st': "st' = st\<lparr>properties := update_rows k g (properties st)\<rparr>"
    by blast
  have d: "distinct (map fst (filter (\<lambda>(a, v). v \<noteq> JUndefined) ?vals))"
    by (rule distinct_map_filter [OF distinct_update_values])
  have "(v = JUndefined \<longrightarrow> column_value a (g q) = column_value a q) \<and>
        (own_typed a v \<longrightarrow> column_value a (g q) = v)"
    if "(a, v) \<in> set ?vals" for a v q
    using assign_attrs_column [OF set_attrs_Inr [OF g] d, where b = a and p = q]
      map_of_filter_value [OF distinct_update_values that, where P = "\<lambda>v. v \<noteq> JUndefined"]
    by (auto simp: own_typed_def split: if_splits)
  with p p' st' show ?thesis by auto
qed

section \<open>Histories keep the keys and the approvals\<close>

lemma approveProperty_Inr:
  assumes "approveProperty st k = Inr (p', st')"
  shows "\<exists>p. find (\<lambda>p. property_id p = k) (properties st) = Some p \<and>
           p' = p\<lparr>isApproved := True\<rparr> \<and>
           st' = st\<lparr>properties := update_rows k (\<lambda>q. q\<lparr>isApproved := True\<rparr>) (properties st)\<rparr>"
proof -
  from assms obtain p where p: "find (\<lambda>p. property_id p = k) (properties st) = Some p"
    and r: "p' = p\<lparr>isApproved := True\<rparr>"
      "st' = st\<lparr>properties := update_rows (property_id p) (\<lambda>q. q\<lparr>isApproved := True\<rparr>)
                 (properties st)\<rparr>"
    by (auto simp: approveProperty_def Property_findByPk_def split: option.splits)
  from find_pk [OF p] r p show ?thesis by auto
qed

lemma deleteProperty_Inr:
  assumes "deleteProperty st k = Inr st'"
  shows "properties st' = filter (\<lambda>q. property_id q \<noteq> k) (properties st) \<and>
         next_property_id st' = next_property_id st"
proof -
  from assms obtain p where p: "find (\<lambda>p. property_id p = k) (properties st) = Some p"
    and r: "st' = st\<lparr>properties := filter (\<lambda>q. property_id q \<noteq> property_id p) (properties st),
                  property_images :=
                    filter (\<lambda>i. image_property_id i \<noteq> property_id p) (property_images st)\<rparr>"
    by (auto simp: deleteProperty_def Property_findByPk_def split: option.splits)
  from find_pk [OF p] r show ?thesis by auto
qed

lemma Property_create_Inr:
  assumes "Property_create st row = Inr (p, st')"
  shows "properties st' = properties st @ [p] \<and> property_id p = next_property_id st \<and>
         next_property_id st' = next_property_id st + 1 \<and> isApproved p = isApproved row \<and>
         name p = name row \<and> user_id p = user_id row \<and>
         property_images st' = property_images st"
proof (cases "property_fault st")
  case (Some e)
  with assms show ?thesis by (simp add: Property_create_def)
next
  case None
  show ?thesis
  proof (cases "validation_items st (map (\<lambda>a. (a, column_value a row)) validated)")
    case (Cons x xs)
    with assms None show ?thesis by (simp add: Property_create_def)
  next
    case Nil
    show ?thesis
    proof (cases "if valid_property_type (property_type row) then Inr (property_type row)
                  else to_property_type st (JStr (property_type row))")
      case (Inl e)
      with assms None Nil show ?thesis by (simp add: Property_create_def)
    next
      case (Inr t)
      with assms None Nil show ?thesis by (auto simp: Property_create_def Let_def)
    qed
  qed
qed

lemma Property_create_valid:
  assumes "property_fault st = None" and "valid_property_type (property_type row)"
    and "0 \<le> bedrooms row" and "0 \<le> bathrooms row" and "min0 (living_rooms row)"
    and "min0 (balconies row)" and "min0 (parking_spaces row)"
    and "valid_year st (year_built row)"
  shows "Property_create st row =
           Inr (row\<lparr>property_id := next_property_id st\<rparr>,
                st\<lparr>properties := properties st @ [row\<lparr>property_id := next_property_id st\<rparr>],
                   next_property_id := next_property_id st + 1\<rparr>)"
proof -
  have "validation_items st (map (\<lambda>a. (a, column_value a row)) validated) = []"
    using assms(3-8)
    by (auto simp: validation_items_def validated_def not_null_items_def validator_items_def
        lower_def upper_def nullable_column_def nullable_def min0_def valid_year_def
        split: option.splits)
  with assms(1,2) show ?thesis
    by (simp add: Property_create_def Let_def)
qed

lemma createProperty_Inr:
  assumes "createProperty st n d c pr t be ba l bl pa sq u r f y = Inr (p, st')"
  shows "properties st' = properties st @ [p] \<and> property_id p = next_property_id st \<and>
         next_property_id st' = next_property_id st + 1 \<and> \<not> isApproved p"
proof -
  from assms obtain row where "Property_create st row = Inr (p, st')" and "\<not> isApproved row"
    by (auto simp: createProperty_def split: sum.splits option.splits)
  from Property_create_Inr [OF this(1)] this(2) show ?thesis by simp
qed

lemma set_attrs_key: "set_attrs st avs = Inr g \<Longrightarrow> property_id (g q) = property_id q"
  using set_attrs_frame [of st avs g q] by (simp add: frame_of_def)

lemma set_attrs_approved: "set_attrs st avs = Inr g \<Longrightarrow> isApproved (g q) = isApproved q"
  using set_attrs_frame [of st avs g q] by (simp add: frame_of_def)

lemma perform_cases:
  "(properties (perform op st) = properties st \<and>
      next_property_id (perform op st) = next_property_id st) \<or>
   (\<exists>p. properties (perform op st) = properties st @ [p] \<and>
      property_id p = next_property_id st \<and>
      next_property_id (perform op st) = next_property_id st + 1) \<or>
   (\<exists>k g. properties (perform op st) = update_rows k g (properties st) \<and>
      next_property_id (perform op st) = next_property_id st \<and>
      (\<forall>q. property_id (g q) = property_id q \<and> (isApproved q \<longrightarrow> isApproved (g q)))) \<or>
   (\<exists>k. properties (perform op st) = filter (\<lambda>q. property_id q \<noteq> k) (properties st) \<and>
      next_property_id (perform op st) = next_property_id st)"
proof (cases op)
  case (Create n d c pr t be ba l bl pa sq u r f y)
  show ?thesis
  proof (cases "createProperty st n d c pr t be ba l bl pa sq u r f y")
    case (Inl e)
    then show ?thesis by (simp add: Create)
  next
    case (Inr x)
    obtain p st' where x: "x = (p, st')" by (cases x)
    from createProperty_Inr [OF Inr [unfolded x]] show ?thesis
      by (simp add: Create Inr x)
  qed
next
  case (Update k n d c pr t be ba l bl pa f y)
  show ?thesis
  proof (cases "updateProperty st k n d c pr t be ba l bl pa f y")
    case (Inl e)
    then show ?thesis by (simp add: Update)
  next
    case (Inr x)
    obtain p st' where x: "x = (p, st')" by (cases x)
    from updateProperty_Inr [OF Inr [unfolded x]] obtain g where
      g: "set_attrs st (filter (\<lambda>(a, v). v \<noteq> JUndefined)
             (update_values n d c pr t be ba l bl pa f y)) = Inr g"
      and st': "st' = st\<lparr>properties := update_rows k g (properties st)\<rparr>"
      by blast
    have "properties (perform op st) = update_rows k g (properties st) \<and>
      next_property_id (perform op st) = next_property_id st \<and>
      (\<forall>q. property_id (g q) = property_id q \<and> (isApproved q \<longrightarrow> isApproved (g q)))"
      by (simp add: Update Inr x st' set_attrs_key [OF g] set_attrs_approved [OF g])
    then show ?thesis by blast
  qed
next
  case (Delete k)
  show ?thesis
  proof (cases "deleteProperty st k")
    case (Inl e)
    then show ?thesis by (simp add: Delete)
  next
    case (Inr st')
    from deleteProperty_Inr [OF Inr] have
      "properties (perform op st) = filter (\<lambda>q. property_id q \<noteq> k) (properties st) \<and>
       next_property_id (perform op st) = next_property_id st"
      by (simp add: Delete Inr)
    then show ?thesis by blast
  qed
next
  case (Approve k)
  show ?thesis
  proof (cases "approveProperty st k")
    case (Inl e)
    then show ?thesis by (simp add: Approve)
  next
    case (Inr x)
    obtain p st' where x: "x = (p, st')" by (cases x)
    from approveProperty_Inr [OF Inr [unfolded x]] have
      "properties (perform op st) =
         update_rows k (\<lambda>q. q\<lparr>isApproved := True\<rparr>) (properties st) \<and>
       next_property_id (perform op st) = next_property_id st \<and>
       (\<forall>q. property_id (q\<lparr>isApproved := True\<rparr>) = property_id q \<and>
          (isApproved q \<longrightarrow> isApproved (q\<lparr>isApproved := True\<rparr>)))"
      by (auto simp: Approve Inr x)
    then show ?thesis by blast
  qed
next
  case (Surroundings t y pf imf imgs)
  then show ?thesis by simp
qed

lemma map_key_update_rows:
  "(\<And>q. property_id (g q) = property_id q) \<Longrightarrow>
   map property_id (update_rows k g rows) = map property_id rows"
  by (induction rows) (simp_all add: update_rows_def)

lemma keys_ok_perform: "keys_ok st \<Longrightarrow> keys_ok (perform op st)"
proof -
  assume a: "keys_ok st"
  then have lt: "\<forall>p \<in> set (properties st). property_id p < next_property_id st"
    and di: "distinct (map property_id (properties st))"
    by (simp_all add: keys_ok_def list_all_iff)
  from perform_cases [of op st] show ?thesis
  proof (elim disjE exE conjE)
    assume "properties (perform op st) = properties st"
      "next_property_id (perform op st) = next_property_id st"
    with a show ?thesis by (simp add: keys_ok_def)
  next
    fix p
    assume "properties (perform op st) = properties st @ [p]"
      "property_id p = next_property_id st"
      "next_property_id (perform op st) = next_property_id st + 1"
    with lt di show ?thesis
      by (fastforce simp: keys_ok_def list_all_iff)
  next
    fix k g
    assume e: "properties (perform op st) = update_rows k g (properties st)"
      "next_property_id (perform op st) = next_property_id st"
      and g: "\<forall>q. property_id (g q) = property_id q \<and> (isApproved q \<longrightarrow> isApproved (g q))"
    from g have m: "map property_id (update_rows k g (properties st)) =
        map property_id (properties st)"
      by (simp add: map_key_update_rows)
    have "\<forall>p \<in> set (update_rows k g (properties st)). property_id p < next_property_id st"
      using lt g by (auto simp: update_rows_def)
    with di m e show ?thesis
      by (simp add: keys_ok_def list_all_iff)
  next
    fix k
    assume "properties (perform op st) = filter (\<lambda>q. property_id q \<noteq> k) (properties st)"
      "next_property_id (perform op st) = next_property_id st"
    with lt di show ?thesis
      by (simp add: keys_ok_def list_all_iff distinct_map_filter)
  qed
qed

lemma keys_ok_reachable: "reachable st \<Longrightarrow> keys_ok st"
proof (induction rule: reachable.induct)
  case (start st)
  then show ?case by (simp add: keys_ok_def)
next
  case (step st op)
  then show ?case by (simp only: keys_ok_perform)
qed

lemma approved_at_perform:
  assumes "k < next_property_id st" and "approved_at st k"
  shows "k < next_property_id (perform op st) \<and> approved_at (perform op st) k"
proof -
  from assms(2) have ap: "\<forall>q \<in> set (properties st). property_id q = k \<longrightarrow> isApproved q"
    by (simp add: approved_at_def list_all_iff)
  from perform_cases [of op st] show ?thesis
  proof (elim disjE exE conjE)
    assume "properties (perform op st) = properties st"
      "next_property_id (perform op st) = next_property_id st"
    with assms show ?thesis by (simp add: approved_at_def)
  next
    fix p
    assume "properties (perform op st) = properties st @ [p]"
      "property_id p = next_property_id st"
      "next_property_id (perform op st) = next_property_id st + 1"
    with assms(1) ap show ?thesis
      by (auto simp: approved_at_def list_all_iff)
  next
    fix j g
    assume "properties (perform op st) = update_rows j g (properties st)"
      "next_property_id (perform op st) = next_property_id st"
      "\<forall>q. property_id (g q) = property_id q \<and> (isApproved q \<longrightarrow> isApproved (g q))"
    with assms(1) ap show ?thesis
      by (auto simp: approved_at_def list_all_iff update_rows_def)
  next
    fix j
    assume "properties (perform op st) = filter (\<lambda>q. property_id q \<noteq> j) (properties st)"
      "next_property_id (perform op st) = next_property_id st"
    with assms(1) ap show ?thesis
      by (auto simp: approved_at_def list_all_iff)
  qed
qed

lemma approved_at_run:
  "k < next_property_id st \<Longrightarrow> approved_at st k \<Longrightarrow> approved_at (run ops st) k"
proof (induction ops arbitrary: st)
  case Nil
  then show ?case by simp
next
  case (Cons op ops)
  from approved_at_perform [OF Cons.prems, of op] Cons.IH show ?case by simp
qed

lemma reachable_run: "reachable st \<Longrightarrow> reachable (run ops st)"
  by (induction ops arbitrary: st) (simp_all add: reachable.step)

lemma approved_at_row:
  assumes "keys_ok st" and "p \<in> set (properties st)" and "isApproved p"
  shows "property_id p < next_property_id st \<and> approved_at st (property_id p)"
proof -
  from assms(1) have lt: "\<forall>q \<in> set (properties st). property_id q < next_property_id st"
    and di: "distinct (map property_id (properties st))"
    by (simp_all add: keys_ok_def list_all_iff)
  from di have inj: "inj_on property_id (set (properties st))"
    by (simp add: distinct_map)
  have "q = p" if "q \<in> set (properties st)" "property_id q = property_id p" for q
    by (rule inj_onD [OF inj that(2) that(1) assms(2)])
  with assms(2,3) lt show ?thesis
    by (auto simp: approved_at_def list_all_iff)
qed

section \<open>The seeded store, evaluated\<close>

lemma seed_faults: "property_fault seed = None" "image_fault seed = None"
  by (simp_all add: seed_def)

lemma seed_rows: "properties seed = [propA, propB, propC]"
  by (simp add: seed_def)

lemma seed_distinct: "propA \<noteq> propB" "propB \<noteq> propA"
  by (simp_all add: propA_def propB_def blank_def)

lemma seed_all:
  "getPropertiesDynamic seed None sortBy None None None None None None None None =
     Inr (map (with_images seed) (orderRows (buildOrder sortBy) [propA, propB]))"
  by (simp add: dynamic_ok [OF seed_faults] seed_rows whereCondition_def matches_def
      propA_def propB_def propC_def blank_def)

lemma seed_beirut:
  "getPropertiesDynamic seed None None (Some ''Beirut'') None None None None None None None =
     Inr [with_images seed propA, with_images seed propB]"
  by (simp add: dynamic_ok [OF seed_faults] seed_rows whereCondition_def matches_def
      buildOrder_def propA_def propB_def propC_def blank_def)

lemma seed_from_150000:
  "getPropertiesDynamic seed None None None None (Some 150000) None None None None None =
     Inr [with_images seed propB]"
  by (simp add: dynamic_ok [OF seed_faults] seed_rows whereCondition_def matches_def
      buildOrder_def propA_def propB_def propC_def blank_def)

lemma seed_beirut_from_150000:
  "getPropertiesDynamic seed None None (Some ''Beirut'') None (Some 150000) None None None
     None None = Inr [with_images seed propB]"
  by (simp add: dynamic_ok [OF seed_faults] seed_rows whereCondition_def matches_def
      buildOrder_def propA_def propB_def propC_def blank_def)

lemma seed_price_range:
  "getPropertiesDynamic seed None None None None (Some 100000) (Some 200000) None None
     None None = Inr [with_images seed propA, with_images seed propB]"
  by (simp add: dynamic_ok [OF seed_faults] seed_rows whereCondition_def matches_def
      buildOrder_def propA_def propB_def propC_def blank_def)

lemma seed_year_range:
  "getPropertiesDynamic seed None None None None None None (Some 2000) (Some 2005)
     None None = Inr [with_images seed propA]"
  by (simp add: dynamic_ok [OF seed_faults] seed_rows whereCondition_def matches_def
      buildOrder_def propA_def propB_def propC_def blank_def)

lemma seed_price_desc:
  "getPropertiesDynamic seed None (Some ''price_desc'') None None None None None None None None =
     Inr [with_images seed propB, with_images seed propA]"
  by (simp add: seed_all buildOrder_simps sortAsc_def propA_def propB_def blank_def)

lemma seed_unknown_sort:
  "getPropertiesDynamic seed None (Some ''cheapest'') None None None None None None None None =
     Inr [with_images seed propA, with_images seed propB]"
  by (simp add: seed_all buildOrder_def)

lemma seed_attach:
  "attachImagesToProperties seed [propA, propB] = Inr [with_images seed propA, with_images seed propB]"
  using attach_ok [OF seed_faults(2), of "[propA, propB]"] by simp

lemma seed_images:
  "images (with_images seed propA) = [''a1.jpg'', ''a2.jpg'']"
  "images (with_images seed propB) = []"
  by (simp_all add: images_with_images seed_def propA_def propB_def blank_def)

lemma seed_create_other_owner:
  "createProperty seed ''A'' ''d'' ''Beirut'' 5 ''villa'' 1 1 None None None 50 7 False False
     (Some 1999) =
   Inr (propD, seed\<lparr>properties := [propA, propB, propC, propD], next_property_id := 5\<rparr>)"
  by (simp add: createProperty_def Property_findOne_def seed_def
      matches_def create_defs Let_def
      propA_def propB_def propC_def propD_def blank_def)

lemma seed_update_price:
  "updateProperty seed 1 JUndefined JUndefined JUndefined (JNum 120000) JUndefined JUndefined
     JUndefined JUndefined JUndefined JUndefined JUndefined JUndefined =
   Inr (propA\<lparr>price := 120000\<rparr>,
        seed\<lparr>properties := [propA\<lparr>price := 120000\<rparr>, propB, propC]\<rparr>)"
  by (simp add: updateProperty_def Property_findByPk_def Property_update_def update_values_def
      update_defs update_rows_def seed_def propA_def propB_def propC_def blank_def)

section \<open>The store with a listing in Tripoli, evaluated\<close>

lemma town_faults: "property_fault town = None" "image_fault town = None"
  by (simp_all add: town_def seed_def)

lemma town_rows: "properties town = [propA, propB, propC, propE]"
  by (simp add: town_def)

lemma town_all:
  "getPropertiesDynamic town None None None None None None None None None None =
     Inr [with_images town propA, with_images town propB, with_images town propE]"
  by (simp add: dynamic_ok [OF town_faults] town_rows whereCondition_def matches_def
      buildOrder_def propA_def propB_def propC_def propE_def blank_def)

lemma town_beirut:
  "getPropertiesDynamic town None None (Some ''Beirut'') None None None None None None None =
     Inr [with_images town propA, with_images town propB]"
  by (simp add: dynamic_ok [OF town_faults] town_rows whereCondition_def matches_def
      buildOrder_def propA_def propB_def propC_def propE_def blank_def)

lemma town_from_150000:
  "getPropertiesDynamic town None None None None (Some 150000) None None None None None =
     Inr [with_images town propB, with_images town propE]"
  by (simp add: dynamic_ok [OF town_faults] town_rows whereCondition_def matches_def
      buildOrder_def propA_def propB_def propC_def propE_def blank_def)

lemma town_beirut_from_150000:
  "getPropertiesDynamic town None None (Some ''Beirut'') None (Some 150000) None None None
     None None = Inr [with_images town propB]"
  by (simp add: dynamic_ok [OF town_faults] town_rows whereCondition_def matches_def
      buildOrder_def propA_def propB_def propC_def propE_def blank_def)

lemma town_tripoli_not_owner_3:
  "getPropertiesDynamic town None None (Some ''Tripoli'') None None None None None
     None (Some 3) = Inr []"
  by (simp add: dynamic_ok [OF town_faults] town_rows whereCondition_def matches_def
      buildOrder_def propA_def propB_def propC_def propE_def blank_def)

section \<open>The history, evaluated\<close>

lemma fresh_rows: "properties fresh = []"
  by (simp add: fresh_def)

lemma pending_eq:
  "pending = fresh\<lparr>properties := [listedA\<lparr>isApproved := False\<rparr>], next_property_id := 2\<rparr>"
  by (simp add: pending_def fresh_def seed_def createProperty_def Property_findOne_def
      create_defs
      Let_def listedA_def blank_def)

lemma approve_pending: "approveProperty pending 1 = Inr (listedA, listed)"
  by (simp add: listed_def pending_eq approveProperty_def Property_findByPk_def fresh_def
      seed_def update_rows_def listedA_def blank_def)

lemma listed_eq: "listed = fresh\<lparr>properties := [listedA], next_property_id := 2\<rparr>"
  by (simp add: listed_def pending_eq approveProperty_def Property_findByPk_def fresh_def
      seed_def update_rows_def listedA_def blank_def)

lemma later_rows: "properties (run later listed) = [listedA\<lparr>price := 120000\<rparr>]"
  by (simp add: later_def listed_eq fresh_def seed_def
      updateProperty_def Property_findByPk_def Property_update_def update_values_def
      update_defs update_rows_def
      createProperty_def Property_findOne_def matches_def
      create_defs
      approveProperty_def deleteProperty_def
      Let_def listedA_def blank_def)

lemma reachable_pending: "reachable pending"
  unfolding pending_def by (rule reachable_run [OF reachable.start [OF fresh_rows]])

lemma reachable_listed: "reachable listed"
  unfolding listed_def by (rule reachable_run [OF reachable_pending])

section \<open>Only approved listings are surfaced\<close>

text \<open>
  Claim C1. Whatever the filter arguments, every property that
  \<^verbatim>\<open>getPropertiesDynamic\<close> returns, and every property that \<^verbatim>\<open>getApprovedProperties\<close>
  returns, is a row of the store with \<open>isApproved\<close> true: a row that is not
  approved appears in neither result.
\<close>

theorem only_approved_surfaced:
  "(getPropertiesDynamic st isRent sortBy city' propertyType minPrice maxPrice
       minYear maxYear furnished' userId = Inr rs \<longrightarrow>
      (\<forall>r \<in> set rs. isApproved r \<and> property.truncate r \<in> set (properties st))) \<and>
   (getApprovedProperties st = Inr ps \<longrightarrow>
      (\<forall>p \<in> set ps. isApproved p \<and> p \<in> set (properties st)))"
proof (intro conjI impI)
  assume "getPropertiesDynamic st isRent sortBy city' propertyType minPrice maxPrice
       minYear maxYear furnished' userId = Inr rs"
  from dynamic_Inr [OF this]
  show "\<forall>r \<in> set rs. isApproved r \<and> property.truncate r \<in> set (properties st)"
    by (auto dest: whereCondition_approved)
next
  assume "getApprovedProperties st = Inr ps"
  then have "ps = orderRows [(ColCreatedAt, DESC)] (filter (matches [IsApprovedEq True]) (properties st))"
    unfolding getApprovedProperties_def by (rule findAll_Inr)
  then show "\<forall>p \<in> set ps. isApproved p \<and> p \<in> set (properties st)"
    by (simp add: matches_def)
qed


text \<open>On the seeded store: the query for Beirut by falling price returns B and A, the
  approved listing returns B and A, and the unapproved C is in neither.\<close>

theorem only_approved_surfaced_witness:
  "getPropertiesDynamic seed None (Some ''price_desc'') (Some ''Beirut'') None None None
       None None None None = Inr [with_images seed propB, with_images seed propA] \<and>
   isApproved (with_images seed propB) \<and> isApproved (with_images seed propA) \<and>
   property.truncate (with_images seed propB) \<in> set (properties seed) \<and>
   getApprovedProperties seed = Inr [propB, propA] \<and>
   isApproved propB \<and> isApproved propA \<and>
   \<not> isApproved propC \<and> propC \<in> set (properties seed)"
proof -
  have fa: "property_fault seed = None" "image_fault seed = None"
    by (simp_all add: seed_def)
  have rows: "properties seed = [propA, propB, propC]"
    by (simp add: seed_def)
  have d: "getPropertiesDynamic seed None (Some ''price_desc'') (Some ''Beirut'') None None None
       None None None None = Inr [with_images seed propB, with_images seed propA]"
    by (simp add: dynamic_ok [OF fa] rows buildOrder_def whereCondition_def matches_def
        sortAsc_def propA_def propB_def propC_def blank_def)
  have a: "getApprovedProperties seed = Inr [propB, propA]"
    by (simp add: getApprovedProperties_def findAll_ok [OF fa(1)] rows matches_def
        sortAsc_def propA_def propB_def propC_def blank_def)
  have c: "\<not> isApproved propC \<and> propC \<in> set (properties seed)"
    by (simp add: rows propC_def blank_def)
  from only_approved_surfaced [of seed None "Some ''price_desc''" "Some ''Beirut''" None None None None None None None
      "[with_images seed propB, with_images seed propA]" "[propB, propA]"] d a c
  show ?thesis by simp
qed

section \<open>Filters compose by conjunction\<close>

text \<open>
  Claim C2. For every store and every combination of the optional filters, the
  set of properties \<^verbatim>\<open>getPropertiesDynamic\<close> returns is the intersection of the
  sets it returns when given each filter alone: the rental flag, the city, the
  property type, the furnished flag, the excluded owner, the price range, the
  year range. A filter that is absent imposes nothing: with the store
  answering and no filter at all, the result is every approved row. And the
  predicate is the conjunction of the present filters and of the approval: with
  the store answering, the result is made of exactly the rows that are
  approved, have the rental flag asked for, the city and the property type
  asked for, the furnished flag asked for, an owner other than the excluded
  one, a price within the bounds given and a year within the bounds given. A
  city or a property type is present when it is a string that is not empty, as
  the source tests it; every other filter is present when it is not null.
\<close>

theorem filters_intersect:
  "result_set (getPropertiesDynamic st isRent sortBy city' propertyType minPrice maxPrice
       minYear maxYear furnished' userId) =
     result_set (getPropertiesDynamic st isRent sortBy None None None None None None None None) \<inter>
     result_set (getPropertiesDynamic st None sortBy city' None None None None None None None) \<inter>
     result_set (getPropertiesDynamic st None sortBy None propertyType None None None None None None) \<inter>
     result_set (getPropertiesDynamic st None sortBy None None None None None None furnished' None) \<inter>
     result_set (getPropertiesDynamic st None sortBy None None None None None None None userId) \<inter>
     result_set (getPropertiesDynamic st None sortBy None None minPrice maxPrice None None None None) \<inter>
     result_set (getPropertiesDynamic st None sortBy None None None None minYear maxYear None None) \<and>
   (property_fault st = None \<and> image_fault st = None \<longrightarrow>
     result_set (getPropertiesDynamic st None sortBy None None None None None None None None) =
       with_images st ` {p \<in> set (properties st). isApproved p}) \<and>
   (property_fault st = None \<and> image_fault st = None \<longrightarrow>
     result_set (getPropertiesDynamic st isRent sortBy city' propertyType minPrice maxPrice
         minYear maxYear furnished' userId) =
       with_images st `
         {p \<in> set (properties st).
            isApproved p \<and>
            (\<forall>r. isRent = Some r \<longrightarrow> isForRent p = r) \<and>
            (\<forall>c. city' = Some c \<longrightarrow> c \<noteq> [] \<longrightarrow> city p = c) \<and>
            (\<forall>t. propertyType = Some t \<longrightarrow> t \<noteq> [] \<longrightarrow> property_type p = t) \<and>
            (\<forall>f. furnished' = Some f \<longrightarrow> furnished p = f) \<and>
            (\<forall>u. userId = Some u \<longrightarrow> user_id p \<noteq> u) \<and>
            (\<forall>y. minYear = Some y \<longrightarrow> (\<exists>v. year_built p = Some v \<and> y \<le> v)) \<and>
            (\<forall>y. maxYear = Some y \<longrightarrow> (\<exists>v. year_built p = Some v \<and> v \<le> y)) \<and>
            (\<forall>x. minPrice = Some x \<longrightarrow> x \<le> price p) \<and>
            (\<forall>x. maxPrice = Some x \<longrightarrow> price p \<le> x)})"
proof (cases "property_fault st = None \<and> image_fault st = None")
  case True
  then have f: "property_fault st = None" "image_fault st = None" by simp_all
  have 1: "result_set (getPropertiesDynamic st isRent sortBy city' propertyType minPrice maxPrice
       minYear maxYear furnished' userId) =
     result_set (getPropertiesDynamic st isRent sortBy None None None None None None None None) \<inter>
     result_set (getPropertiesDynamic st None sortBy city' None None None None None None None) \<inter>
     result_set (getPropertiesDynamic st None sortBy None propertyType None None None None None None) \<inter>
     result_set (getPropertiesDynamic st None sortBy None None None None None None furnished' None) \<inter>
     result_set (getPropertiesDynamic st None sortBy None None None None None None None userId) \<inter>
     result_set (getPropertiesDynamic st None sortBy None None minPrice maxPrice None None None None) \<inter>
     result_set (getPropertiesDynamic st None sortBy None None None None minYear maxYear None None)"
    unfolding result_set_dynamic_ok [OF f] matches_whereCondition image_Collect_Int
    apply (simp only: option.case matches_Nil simp_thms)
    apply (rule arg_cong [where f = "image (with_images st)"])
    apply (rule Collect_cong)
    apply blast
    done
  have 2: "result_set (getPropertiesDynamic st None sortBy None None None None None None None None) =
       with_images st ` {p \<in> set (properties st). isApproved p}"
    unfolding result_set_dynamic_ok [OF f] matches_whereCondition
    by (simp only: option.case matches_Nil simp_thms)
  have 3: "result_set (getPropertiesDynamic st isRent sortBy city' propertyType minPrice maxPrice
         minYear maxYear furnished' userId) =
       with_images st `
         {p \<in> set (properties st).
            isApproved p \<and>
            (\<forall>r. isRent = Some r \<longrightarrow> isForRent p = r) \<and>
            (\<forall>c. city' = Some c \<longrightarrow> c \<noteq> [] \<longrightarrow> city p = c) \<and>
            (\<forall>t. propertyType = Some t \<longrightarrow> t \<noteq> [] \<longrightarrow> property_type p = t) \<and>
            (\<forall>f. furnished' = Some f \<longrightarrow> furnished p = f) \<and>
            (\<forall>u. userId = Some u \<longrightarrow> user_id p \<noteq> u) \<and>
            (\<forall>y. minYear = Some y \<longrightarrow> (\<exists>v. year_built p = Some v \<and> y \<le> v)) \<and>
            (\<forall>y. maxYear = Some y \<longrightarrow> (\<exists>v. year_built p = Some v \<and> v \<le> y)) \<and>
            (\<forall>x. minPrice = Some x \<longrightarrow> x \<le> price p) \<and>
            (\<forall>x. maxPrice = Some x \<longrightarrow> price p \<le> x)}"
    unfolding result_set_dynamic_ok [OF f] matches_whereCondition matches_parts
    by (rule refl)
  from 1 2 3 show ?thesis by (intro conjI impI)
next
  case False
  then have g: "property_fault st \<noteq> None \<or> image_fault st \<noteq> None" by simp
  show ?thesis
    unfolding result_set_dynamic_fault [OF g] using False by auto
qed

text \<open>On the store with E in Tripoli: Beirut from 150000 upwards is B alone, the meet of
  Beirut (A and B) and of the price bound (B and E); Tripoli without owner 3 is empty;
  with no filter, every approved row: A, B and E.\<close>

theorem filters_intersect_witness:
  "property_fault town = None \<and> image_fault town = None \<and>
   result_set (getPropertiesDynamic town None None (Some ''Beirut'') None (Some 150000) None
     None None None None) = {with_images town propB} \<and>
   result_set (getPropertiesDynamic town None None (Some ''Beirut'') None None None
     None None None None) = {with_images town propA, with_images town propB} \<and>
   result_set (getPropertiesDynamic town None None None None (Some 150000) None
     None None None None) = {with_images town propB, with_images town propE} \<and>
   result_set (getPropertiesDynamic town None None (Some ''Tripoli'') None None None None None
     None (Some 3)) = {} \<and>
   result_set (getPropertiesDynamic town None None None None None None None None None None) =
     with_images town ` {p \<in> set (properties town). isApproved p} \<and>
   result_set (getPropertiesDynamic town None None None None None None None None None None) =
     {with_images town propA, with_images town propB, with_images town propE}"
proof -
  note c = filters_intersect [of town None None "Some ''Beirut''" None "Some 150000" None
      None None None None]
  from conjunct1 [OF conjunct2 [OF c]] town_faults
  have n: "result_set (getPropertiesDynamic town None None None None None None None None
      None None) = with_images town ` {p \<in> set (properties town). isApproved p}"
    by (simp only: simp_thms)
  have e: "result_set (getPropertiesDynamic town None None (Some ''Beirut'') None (Some 150000)
       None None None None None) = {with_images town propB}"
    "result_set (getPropertiesDynamic town None None (Some ''Beirut'') None None None
       None None None None) = {with_images town propA, with_images town propB}"
    "result_set (getPropertiesDynamic town None None None None (Some 150000) None
       None None None None) = {with_images town propB, with_images town propE}"
    "result_set (getPropertiesDynamic town None None (Some ''Tripoli'') None None None None None
       None (Some 3)) = {}"
    "result_set (getPropertiesDynamic town None None None None None None None None None None) =
       {with_images town propA, with_images town propB, with_images town propE}"
    by (simp_all add: town_beirut_from_150000 town_beirut town_from_150000
        town_tripoli_not_owner_3 town_all result_set_def)
  show ?thesis
    by (intro conjI town_faults e n)
qed

section \<open>Inclusive ranges\<close>





section \<open>Ordering of the result\<close>

text \<open>
  Claim C4. When the store answers, \<^verbatim>\<open>getPropertiesDynamic\<close> returns a list that is
  non-decreasing in price for \<^verbatim>\<open>price_asc\<close> and non-increasing for \<^verbatim>\<open>price_desc\<close>,
  likewise in \<open>created_at\<close> for \<^verbatim>\<open>date_asc\<close> and \<^verbatim>\<open>date_desc\<close> and in \<open>year_built\<close> for
  \<^verbatim>\<open>year_asc\<close> and \<^verbatim>\<open>year_desc\<close> (a missing year counting below every year). Any
  other \<^verbatim>\<open>sortBy\<close> is no error: \<^verbatim>\<open>buildOrder\<close> gives the empty order and the rows
  come back in the store's natural order.
\<close>

theorem result_ordered:
  assumes "property_fault st = None" and "image_fault st = None"
  shows "\<exists>rs. getPropertiesDynamic st isRent sortBy city' propertyType minPrice maxPrice
                minYear maxYear furnished' userId = Inr rs \<and>
    (sortBy = Some ''price_asc'' \<longrightarrow> sorted_wrt (\<lambda>a b. price a \<le> price b) rs) \<and>
    (sortBy = Some ''price_desc'' \<longrightarrow> sorted_wrt (\<lambda>a b. price b \<le> price a) rs) \<and>
    (sortBy = Some ''date_asc'' \<longrightarrow> sorted_wrt (\<lambda>a b. created_at a \<le> created_at b) rs) \<and>
    (sortBy = Some ''date_desc'' \<longrightarrow> sorted_wrt (\<lambda>a b. created_at b \<le> created_at a) rs) \<and>
    (sortBy = Some ''year_asc'' \<longrightarrow> sorted_wrt (\<lambda>a b. year_built a \<le> year_built b) rs) \<and>
    (sortBy = Some ''year_desc'' \<longrightarrow> sorted_wrt (\<lambda>a b. year_built b \<le> year_built a) rs) \<and>
    (sortBy \<notin> {Some ''price_asc'', Some ''price_desc'', Some ''date_asc'', Some ''date_desc'',
                Some ''year_asc'', Some ''year_desc''} \<longrightarrow>
       buildOrder sortBy = [] \<and>
       map property.truncate rs =
         filter (matches (whereCondition isRent city' propertyType minPrice maxPrice
                            minYear maxYear furnished' userId)) (properties st))"
proof -
  let ?rows = "filter (matches (whereCondition isRent city' propertyType minPrice maxPrice
                            minYear maxYear furnished' userId)) (properties st)"
  let ?rs = "map (with_images st) (orderRows (buildOrder sortBy) ?rows)"
  have r: "getPropertiesDynamic st isRent sortBy city' propertyType minPrice maxPrice
                minYear maxYear furnished' userId = Inr ?rs"
    by (rule dynamic_ok [OF assms])
  have 1: "sortBy = Some ''price_asc'' \<longrightarrow>
      sorted_wrt (\<lambda>a b. price a \<le> price b) ?rs"
  proof
    assume s: "sortBy = Some ''price_asc''"
    show "sorted_wrt (\<lambda>a b. price a \<le> price b) ?rs"
      unfolding s buildOrder_simps orderRows.simps sorted_wrt_with_images
      by (rule sorted_sortAsc)
  qed
  have 2: "sortBy = Some ''price_desc'' \<longrightarrow>
      sorted_wrt (\<lambda>a b. price b \<le> price a) ?rs"
  proof
    assume s: "sortBy = Some ''price_desc''"
    show "sorted_wrt (\<lambda>a b. price b \<le> price a) ?rs"
      unfolding s buildOrder_simps orderRows.simps sorted_wrt_with_images
      by (rule sorted_sortDesc)
  qed
  have 3: "sortBy = Some ''date_asc'' \<longrightarrow>
      sorted_wrt (\<lambda>a b. created_at a \<le> created_at b) ?rs"
  proof
    assume s: "sortBy = Some ''date_asc''"
    show "sorted_wrt (\<lambda>a b. created_at a \<le> created_at b) ?rs"
      unfolding s buildOrder_simps orderRows.simps sorted_wrt_with_images
      by (rule sorted_sortAsc)
  qed
  have 4: "sortBy = Some ''date_desc'' \<longrightarrow>
      sorted_wrt (\<lambda>a b. created_at b \<le> created_at a) ?rs"
  proof
    assume s: "sortBy = Some ''date_desc''"
    show "sorted_wrt (\<lambda>a b. created_at b \<le> created_at a) ?rs"
      unfolding s buildOrder_simps orderRows.simps sorted_wrt_with_images
      by (rule sorted_sortDesc)
  qed
  have 5: "sortBy = Some ''year_asc'' \<longrightarrow>
      sorted_wrt (\<lambda>a b. year_built a \<le> year_built b) ?rs"
  proof
    assume s: "sortBy = Some ''year_asc''"
    show "sorted_wrt (\<lambda>a b. year_built a \<le> year_built b) ?rs"
      unfolding s buildOrder_simps orderRows.simps sorted_wrt_with_images
      by (rule sorted_sortAsc)
  qed
  have 6: "sortBy = Some ''year_desc'' \<longrightarrow>
      sorted_wrt (\<lambda>a b. year_built b \<le> year_built a) ?rs"
  proof
    assume s: "sortBy = Some ''year_desc''"
    show "sorted_wrt (\<lambda>a b. year_built b \<le> year_built a) ?rs"
      unfolding s buildOrder_simps orderRows.simps sorted_wrt_with_images
      by (rule sorted_sortDesc)
  qed
  have 7: "sortBy \<notin> {Some ''price_asc'', Some ''price_desc'', Some ''date_asc'',
                Some ''date_desc'', Some ''year_asc'', Some ''year_desc''} \<longrightarrow>
       buildOrder sortBy = [] \<and> map property.truncate ?rs = ?rows"
  proof (intro impI conjI)
    assume a: "sortBy \<notin> {Some ''price_asc'', Some ''price_desc'', Some ''date_asc'',
                Some ''date_desc'', Some ''year_asc'', Some ''year_desc''}"
    show "buildOrder sortBy = []"
      by (rule buildOrder_other [OF a])
    show "map property.truncate ?rs = ?rows"
      by (simp only: buildOrder_other [OF a] orderRows.simps map_truncate_with_images)
  qed
  show ?thesis
    by (rule exI [where x = ?rs]) (intro conjI r 1 2 3 4 5 6 7)
qed

text \<open>On the seeded store: \<^verbatim>\<open>price_desc\<close> returns B before A; the unknown key
  \<^verbatim>\<open>cheapest\<close> returns A and B as stored.\<close>

theorem result_ordered_witness:
  "property_fault seed = None \<and> image_fault seed = None \<and>
   getPropertiesDynamic seed None (Some ''price_desc'') None None None None None None None None =
     Inr [with_images seed propB, with_images seed propA] \<and>
   sorted_wrt (\<lambda>a b. price b \<le> price a) [with_images seed propB, with_images seed propA] \<and>
   getPropertiesDynamic seed None (Some ''cheapest'') None None None None None None None None =
     Inr [with_images seed propA, with_images seed propB] \<and>
   buildOrder (Some ''cheapest'') = []"
proof -
  note c = result_ordered [OF seed_faults, of None "Some ''price_desc''" None None None None None None
      None None]
  obtain rs where
    rs: "getPropertiesDynamic seed None (Some ''price_desc'') None None None None None None
           None None = Inr rs"
    and s: "Some ''price_desc'' = Some ''price_desc'' \<longrightarrow>
           sorted_wrt (\<lambda>a b. price b \<le> price a) rs"
    using c by - (erule exE, elim conjE, rule that, assumption+)
  from rs have "rs = [with_images seed propB, with_images seed propA]"
    by (simp only: seed_price_desc sum.inject)
  with s have srt: "sorted_wrt (\<lambda>a b. price b \<le> price a)
      [with_images seed propB, with_images seed propA]"
    by (simp only: refl simp_thms)
  have bo: "buildOrder (Some ''cheapest'') = []"
    by (simp add: buildOrder_def)
  show ?thesis
    by (intro conjI seed_faults seed_price_desc seed_unknown_sort srt bo)
qed

section \<open>One name per owner\<close>

text \<open>
  Claim C5. With the store answering, \<^verbatim>\<open>createProperty\<close> fails with the conflict
  error, and so creates nothing, when the owner already has a property of that
  name. When no property of that name belongs to the owner (one of another
  owner may have it) and the values pass the validators of the model, it
  succeeds, and the property table afterwards is the table before followed by
  exactly the new row, which carries the name and the owner and is not approved.
\<close>

theorem create_one_name_per_owner:
  "(property_fault st = None \<and>
    (\<exists>q \<in> set (properties st). name q = n \<and> user_id q = u) \<longrightarrow>
      createProperty st n d c pr t be ba l bl pa sq u r f y =
        Inl (Error ''Property with this name already exists for this user'')) \<and>
   (property_fault st = None \<and>
    (\<forall>q \<in> set (properties st). name q = n \<longrightarrow> user_id q \<noteq> u) \<and>
    valid_property_type t \<and> 0 \<le> be \<and> 0 \<le> ba \<and> min0 l \<and> min0 bl \<and> min0 pa \<and>
    valid_year st y \<longrightarrow>
      (\<exists>p st'. createProperty st n d c pr t be ba l bl pa sq u r f y = Inr (p, st') \<and>
         properties st' = properties st @ [p] \<and>
         property_images st' = property_images st \<and>
         name p = n \<and> user_id p = u \<and> \<not> isApproved p))"
proof (intro conjI impI)
  assume "property_fault st = None \<and>
    (\<exists>q \<in> set (properties st). name q = n \<and> user_id q = u)"
  then obtain q where "Property_findOne st [NameEq n, UserIdEq u] = Inr (Some q)"
    using findOne_conflict by blast
  then show "createProperty st n d c pr t be ba l bl pa sq u r f y =
        Inl (Error ''Property with this name already exists for this user'')"
    by (simp add: createProperty_def)
next
  assume a: "property_fault st = None \<and>
    (\<forall>q \<in> set (properties st). name q = n \<longrightarrow> user_id q \<noteq> u) \<and>
    valid_property_type t \<and> 0 \<le> be \<and> 0 \<le> ba \<and> min0 l \<and> min0 bl \<and> min0 pa \<and>
    valid_year st y"
  then have "Property_findOne st [NameEq n, UserIdEq u] = Inr None"
    using findOne_free by blast
  with a show "\<exists>p st'. createProperty st n d c pr t be ba l bl pa sq u r f y = Inr (p, st') \<and>
         properties st' = properties st @ [p] \<and>
         property_images st' = property_images st \<and>
         name p = n \<and> user_id p = u \<and> \<not> isApproved p"
    by (simp add: createProperty_def Property_create_valid)
qed

text \<open>On the seeded store, where owner 1 has a property named A: a second A of owner 1
  is refused, an A of owner 7 is created as row 4 at the end of the table.\<close>

theorem create_one_name_per_owner_witness:
  "property_fault seed = None \<and> propA \<in> set (properties seed) \<and>
   name propA = ''A'' \<and> user_id propA = 1 \<and>
   createProperty seed ''A'' ''d'' ''Beirut'' 5 ''villa'' 1 1 None None None 50 1 False False
     (Some 1999) = Inl (Error ''Property with this name already exists for this user'') \<and>
   createProperty seed ''A'' ''d'' ''Beirut'' 5 ''villa'' 1 1 None None None 50 7 False False
     (Some 1999) =
     Inr (propD, seed\<lparr>properties := [propA, propB, propC, propD], next_property_id := 5\<rparr>) \<and>
   properties (seed\<lparr>properties := [propA, propB, propC, propD], next_property_id := 5\<rparr>) =
     properties seed @ [propD]"
proof -
  have a: "propA \<in> set (properties seed)" "name propA = ''A''" "user_id propA = 1"
    by (simp_all add: seed_rows propA_def blank_def)
  then have "\<exists>q \<in> set (properties seed). name q = ''A'' \<and> user_id q = 1"
    by blast
  with create_one_name_per_owner [of seed "''A''" 1 "''d''" "''Beirut''" 5 "''villa''" 1 1 None None None 50 False False
      "Some 1999"] seed_faults(1)
  have c: "createProperty seed ''A'' ''d'' ''Beirut'' 5 ''villa'' 1 1 None None None 50 1 False
     False (Some 1999) = Inl (Error ''Property with this name already exists for this user'')"
    by (simp only: simp_thms)
  have e: "properties (seed\<lparr>properties := [propA, propB, propC, propD],
       next_property_id := 5\<rparr>) = properties seed @ [propD]"
    by (simp add: seed_rows)
  show ?thesis
    by (intro conjI seed_faults a c seed_create_other_owner e)
qed

section \<open>The update endpoint and its two last arguments\<close>

text \<open>
  Claim C6 says that an update gives every supplied field the supplied value and
  leaves the others. The controller hands \<^verbatim>\<open>year_built\<close> and \<^verbatim>\<open>furnished\<close> to the
  service in that order, where the service expects \<^verbatim>\<open>furnished\<close> and then
  \<^verbatim>\<open>year_built\<close>. So a request that supplies \<^verbatim>\<open>year_built: 2005\<close> and
  \<^verbatim>\<open>furnished: true\<close> for property 1 of the seeded store reaches the service as
  \<^verbatim>\<open>furnished = 2005\<close> and \<^verbatim>\<open>year_built = true\<close>. No validator is declared on
  \<open>furnished\<close>, and those of \<open>year_built\<close> do not read a boolean as a number, so the
  request is answered with status 200 and both columns are overwritten with
  what the store makes of the two values: the year of the row is then 1 and
  not 2005. The service called with the two values in its own order stores
  2005 and true.
\<close>

theorem controller_swaps_year_and_furnished:
  "updateProperty_controller seed 1 year_and_furnished =
     (Status200 ''Property updated successfully''
        (propA\<lparr>furnished := True, year_built := Some 1\<rparr>),
      seed\<lparr>properties := [propA\<lparr>furnished := True, year_built := Some 1\<rparr>, propB, propC]\<rparr>) \<and>
   updateProperty seed 1 JUndefined JUndefined JUndefined JUndefined JUndefined JUndefined
     JUndefined JUndefined JUndefined JUndefined (JBool True) (JNum 2005) =
     Inr (propA\<lparr>furnished := True, year_built := Some 2005\<rparr>,
          seed\<lparr>properties := [propA\<lparr>furnished := True, year_built := Some 2005\<rparr>,
                                propB, propC]\<rparr>)"
  by (simp add: updateProperty_controller_def year_and_furnished_def updateProperty_def
      Property_findByPk_def Property_update_def update_values_def update_defs
      seed_integer_def seed_boolean_def update_rows_def seed_def
      propA_def propB_def propC_def blank_def)

section \<open>Approval is one-way\<close>

text \<open>
  Claim C7. In every store that a history of creations, updates, deletions,
  approvals and changes of the surroundings reaches from an empty property
  table: a property that is approved stays approved through any further history
  for as long as a row with its key exists; \<^verbatim>\<open>approveProperty\<close>, when it returns,
  returns the row approved and leaves every row with that key approved; and it
  does return when the store answers and the property exists. The queries
  return rows and never a store, so they change nothing.
\<close>

theorem approval_one_way:
  assumes "reachable st"
  shows "(\<forall>p \<in> set (properties st). isApproved p \<longrightarrow>
           (\<forall>q \<in> set (properties (run ops st)). property_id q = property_id p \<longrightarrow> isApproved q)) \<and>
         (\<forall>p' st'. approveProperty st k = Inr (p', st') \<longrightarrow>
            isApproved p' \<and> property_id p' = k \<and>
            (\<forall>q \<in> set (properties st'). property_id q = k \<longrightarrow> isApproved q)) \<and>
         (property_fault st = None \<and> (\<exists>p \<in> set (properties st). property_id p = k) \<longrightarrow>
            (\<exists>p' st'. approveProperty st k = Inr (p', st')))"
proof (intro conjI ballI impI allI)
  fix p q
  assume p: "p \<in> set (properties st)" "isApproved p"
    and q: "q \<in> set (properties (run ops st))" "property_id q = property_id p"
  note r = approved_at_row [OF keys_ok_reachable [OF assms] p]
  have "approved_at (run ops st) (property_id p)"
    by (rule approved_at_run [OF conjunct1 [OF r] conjunct2 [OF r]])
  then have "\<forall>x \<in> set (properties (run ops st)). property_id x = property_id p \<longrightarrow> isApproved x"
    by (simp only: approved_at_def list_all_iff)
  with q show "isApproved q" by blast
next
  fix p' st'
  assume a: "approveProperty st k = Inr (p', st')"
  from approveProperty_Inr [OF a] obtain p where
    p: "find (\<lambda>p. property_id p = k) (properties st) = Some p"
    and p': "p' = p\<lparr>isApproved := True\<rparr>"
    and st': "st' = st\<lparr>properties := update_rows k (\<lambda>q. q\<lparr>isApproved := True\<rparr>) (properties st)\<rparr>"
    by blast
  show "isApproved p'" by (simp add: p')
  from find_pk [OF p] show "property_id p' = k" by (simp add: p')
  fix q
  assume q: "q \<in> set (properties st')" "property_id q = k"
  have "properties st' = map (\<lambda>q. if property_id q = k then q\<lparr>isApproved := True\<rparr> else q)
      (properties st)"
    by (simp add: st' update_rows_def)
  with q(1) have "q \<in> (\<lambda>q. if property_id q = k then q\<lparr>isApproved := True\<rparr> else q) `
      set (properties st)"
    by (simp only: set_map)
  then obtain x where "q = (if property_id x = k then x\<lparr>isApproved := True\<rparr> else x)"
    by (rule imageE)
  with q(2) show "isApproved q"
    by (cases "property_id x = k") simp_all
next
  assume h: "property_fault st = None \<and> (\<exists>p \<in> set (properties st). property_id p = k)"
  then have "find (\<lambda>p. property_id p = k) (properties st) \<noteq> None"
    by (auto simp: find_None_iff)
  then obtain p where "find (\<lambda>p. property_id p = k) (properties st) = Some p"
    by blast
  with h show "\<exists>p' st'. approveProperty st k = Inr (p', st')"
    by (simp add: approveProperty_def Property_findByPk_def)
qed

text \<open>On the history: A, created unapproved and then approved, is still approved after
  the update of its price, the creation and deletion of B and a failed approval.\<close>

theorem approval_one_way_witness:
  "reachable listed \<and> listedA \<in> set (properties listed) \<and> isApproved listedA \<and>
   properties (run later listed) = [listedA\<lparr>price := 120000\<rparr>] \<and>
   isApproved (listedA\<lparr>price := 120000\<rparr>) \<and>
   reachable pending \<and> properties pending = [listedA\<lparr>isApproved := False\<rparr>] \<and>
   approveProperty pending 1 = Inr (listedA, listed) \<and> isApproved listedA"
proof -
  have a: "listedA \<in> set (properties listed)" "isApproved listedA"
    by (simp_all add: listed_eq listedA_def blank_def)
  have q: "listedA\<lparr>price := 120000\<rparr> \<in> set (properties (run later listed))"
    "property_id (listedA\<lparr>price := 120000\<rparr>) = property_id listedA"
    by (simp_all add: later_rows)
  note c = approval_one_way [OF reachable_listed, of later 1]
  from conjunct1 [OF c] a q have ap: "isApproved (listedA\<lparr>price := 120000\<rparr>)"
    by blast
  note c' = approval_one_way [OF reachable_pending, of "[]" 1]
  from conjunct1 [OF conjunct2 [OF c']] approve_pending have ap': "isApproved listedA"
    by blast
  have pr: "properties pending = [listedA\<lparr>isApproved := False\<rparr>]"
    by (simp add: pending_eq)
  show ?thesis
    by (intro conjI reachable_listed a later_rows ap reachable_pending pr approve_pending ap')
qed

section \<open>The image composer\<close>

text \<open>
  Claim C8. When the image table answers, \<^verbatim>\<open>attachImagesToProperties\<close> returns, for
  every input sequence, the same properties in the same order, each with an
  \<open>images\<close> field: the \<open>image_url\<close> values of exactly the image rows that reference
  the property, in ascending \<open>image_id\<close> order. A property that no image row
  references gets the empty list.
\<close>

theorem images_attached:
  assumes "image_fault st = None"
  shows "\<exists>rs. attachImagesToProperties st ps = Inr rs \<and>
           map property.truncate rs = ps \<and>
           (\<forall>r \<in> set rs. \<exists>rows.
              images r = map image_url rows \<and>
              sorted (map image_id rows) \<and>
              mset rows = mset (filter (\<lambda>i. image_property_id i = property_id r)
                                  (property_images st)) \<and>
              ((\<forall>i \<in> set (property_images st). image_property_id i \<noteq> property_id r)
                 \<longrightarrow> images r = []))"
proof -
  let ?rs = "map (with_images st) ps"
  have a: "attachImagesToProperties st ps = Inr ?rs"
    by (rule attach_ok [OF assms])
  have b: "map property.truncate ?rs = ps"
    by (rule map_truncate_with_images)
  have c: "\<exists>rows. images r = map image_url rows \<and> sorted (map image_id rows) \<and>
              mset rows = mset (filter (\<lambda>i. image_property_id i = property_id r)
                                  (property_images st)) \<and>
              ((\<forall>i \<in> set (property_images st). image_property_id i \<noteq> property_id r)
                 \<longrightarrow> images r = [])" if "r \<in> set ?rs" for r
  proof -
    from that obtain p where r: "r = with_images st p" by auto
    let ?rows = "sort_key image_id
        (filter (\<lambda>i. image_property_id i = property_id p) (property_images st))"
    have 1: "images r = map image_url ?rows"
      by (simp only: r images_with_images)
    have 2: "sorted (map image_id ?rows)"
      by (rule sorted_sort_key)
    have 3: "mset ?rows = mset (filter (\<lambda>i. image_property_id i = property_id r)
                                  (property_images st))"
      by (simp add: r)
    have 4: "(\<forall>i \<in> set (property_images st). image_property_id i \<noteq> property_id r)
                 \<longrightarrow> images r = []"
    proof
      assume "\<forall>i \<in> set (property_images st). image_property_id i \<noteq> property_id r"
      then have "filter (\<lambda>i. image_property_id i = property_id p) (property_images st) = []"
        by (simp add: r filter_empty_conv)
      then show "images r = []"
        by (simp add: 1)
    qed
    from 1 2 3 4 show ?thesis by blast
  qed
  from a b c show ?thesis by blast
qed

text \<open>On the seeded store: A gets its two images, stored as 5 and 4, in the order
  4, 5; B, which has none, gets the empty list.\<close>

theorem images_attached_witness:
  "image_fault seed = None \<and>
   attachImagesToProperties seed [propA, propB] =
     Inr [with_images seed propA, with_images seed propB] \<and>
   map property.truncate [with_images seed propA, with_images seed propB] = [propA, propB] \<and>
   images (with_images seed propA) = [''a1.jpg'', ''a2.jpg''] \<and>
   images (with_images seed propB) = []"
proof -
  from images_attached [OF seed_faults(2), of "[propA, propB]"]
  obtain rs where rs: "attachImagesToProperties seed [propA, propB] = Inr rs"
    and tr: "map property.truncate rs = [propA, propB]"
    by - (erule exE, elim conjE, rule that, assumption+)
  from rs have eq: "rs = [with_images seed propA, with_images seed propB]"
    by (simp only: seed_attach sum.inject)
  from tr have "map property.truncate [with_images seed propA, with_images seed propB] =
      [propA, propB]"
    by (simp only: eq)
  then show ?thesis
    by (intro conjI seed_faults seed_attach seed_images)
qed

section \<open>Failures of the store\<close>

text \<open>
  Claim C9, as stated, fails: the three list operations catch the store's error
  and throw a new one. With the property table refusing connections, the
  caller of \<^verbatim>\<open>getPropertiesDynamic\<close> sees \<^verbatim>\<open>Error fetching properties\<close> and not the
  store's error; likewise for the two other operations.
\<close>

theorem store_failure_not_propagated:
  "property_fault down = Some (Error ''connect ECONNREFUSED'') \<and>
   getPropertiesDynamic down None None None None None None None None None None =
     Inl (Error ''Error fetching properties'') \<and>
   getPropertiesDynamic down None None None None None None None None None None \<noteq>
     Inl (Error ''connect ECONNREFUSED'') \<and>
   getNonApprovedProperties down \<noteq> Inl (Error ''connect ECONNREFUSED'') \<and>
   getPropertiesByUserId down 1 \<noteq> Inl (Error ''connect ECONNREFUSED'')"
  by (simp add: down_def getPropertiesDynamic_def getNonApprovedProperties_def
      getPropertiesByUserId_def Property_findAll_def)

text \<open>
  Claim C9, amended. When a store call fails, each of the three list operations
  fails too, with no retry and no substitute result, and the error the caller
  observes is a new error with the fixed message of the operation, whatever the
  store's error was. This holds when the property query fails and when an
  image query fails (which needs at least one row to fetch images for).
\<close>

theorem store_failure_replaced:
  "(property_fault st = Some e \<longrightarrow>
      getPropertiesDynamic st isRent sortBy city' propertyType minPrice maxPrice
          minYear maxYear furnished' userId = Inl (Error ''Error fetching properties'') \<and>
      getNonApprovedProperties st = Inl (Error ''Error fetching non-approved properties'') \<and>
      getPropertiesByUserId st u = Inl (Error ''Error fetching properties by user ID'')) \<and>
   (property_fault st = None \<and> image_fault st = Some e \<longrightarrow>
      (filter (matches (whereCondition isRent city' propertyType minPrice maxPrice
                          minYear maxYear furnished' userId)) (properties st) \<noteq> [] \<longrightarrow>
         getPropertiesDynamic st isRent sortBy city' propertyType minPrice maxPrice
           minYear maxYear furnished' userId = Inl (Error ''Error fetching properties'')) \<and>
      (filter (matches [IsApprovedEq False]) (properties st) \<noteq> [] \<longrightarrow>
         getNonApprovedProperties st = Inl (Error ''Error fetching non-approved properties'')) \<and>
      (filter (matches [UserIdEq u]) (properties st) \<noteq> [] \<longrightarrow>
         getPropertiesByUserId st u = Inl (Error ''Error fetching properties by user ID'')))"
proof (intro conjI impI)
  assume "property_fault st = Some e"
  then show "getPropertiesDynamic st isRent sortBy city' propertyType minPrice maxPrice
          minYear maxYear furnished' userId = Inl (Error ''Error fetching properties'')"
    "getNonApprovedProperties st = Inl (Error ''Error fetching non-approved properties'')"
    "getPropertiesByUserId st u = Inl (Error ''Error fetching properties by user ID'')"
    by (simp_all add: getPropertiesDynamic_def getNonApprovedProperties_def
        getPropertiesByUserId_def Property_findAll_def)
next
  assume f: "property_fault st = None \<and> image_fault st = Some e"
  have ne: "orderRows ord rows \<noteq> []" if "rows \<noteq> []" for ord rows
    using that set_orderRows [of ord rows] by (metis set_empty)
  {
    assume "filter (matches (whereCondition isRent city' propertyType minPrice maxPrice
                          minYear maxYear furnished' userId)) (properties st) \<noteq> []"
    from attach_fault [OF conjunct2 [OF f] ne [of _ "buildOrder sortBy", OF this]]
    obtain e' where "attachImagesToProperties st (orderRows (buildOrder sortBy)
        (filter (matches (whereCondition isRent city' propertyType minPrice maxPrice
                          minYear maxYear furnished' userId)) (properties st))) = Inl e'" ..
    then show "getPropertiesDynamic st isRent sortBy city' propertyType minPrice maxPrice
           minYear maxYear furnished' userId = Inl (Error ''Error fetching properties'')"
      using f by (simp add: getPropertiesDynamic_def Let_def findAll_ok)
  }
  {
    assume "filter (matches [IsApprovedEq False]) (properties st) \<noteq> []"
    from attach_fault [OF conjunct2 [OF f] ne [of _ "[(ColCreatedAt, DESC)]", OF this]]
    obtain e' where "attachImagesToProperties st (orderRows [(ColCreatedAt, DESC)]
        (filter (matches [IsApprovedEq False]) (properties st))) = Inl e'" ..
    then show "getNonApprovedProperties st = Inl (Error ''Error fetching non-approved properties'')"
      using f by (simp add: getNonApprovedProperties_def findAll_ok)
  }
  {
    assume "filter (matches [UserIdEq u]) (properties st) \<noteq> []"
    from attach_fault [OF conjunct2 [OF f] ne [of _ "[(ColCreatedAt, DESC)]", OF this]]
    obtain e' where "attachImagesToProperties st (orderRows [(ColCreatedAt, DESC)]
        (filter (matches [UserIdEq u]) (properties st))) = Inl e'" ..
    then show "getPropertiesByUserId st u = Inl (Error ''Error fetching properties by user ID'')"
      using f by (simp add: getPropertiesByUserId_def findAll_ok)
  }
qed

text \<open>On the store whose property table refuses connections, all three operations
  fail with their own messages.\<close>

theorem store_failure_replaced_witness:
  "property_fault down = Some (Error ''connect ECONNREFUSED'') \<and>
   getPropertiesDynamic down None None None None None None None None None None =
     Inl (Error ''Error fetching properties'') \<and>
   getNonApprovedProperties down = Inl (Error ''Error fetching non-approved properties'') \<and>
   getPropertiesByUserId down 1 = Inl (Error ''Error fetching properties by user ID'')"
proof -
  have d: "property_fault down = Some (Error ''connect ECONNREFUSED'')"
    by (simp add: down_def)
  from store_failure_replaced [of down "Error ''connect ECONNREFUSED''" None None None None None None None None
      None None 1] d
  show ?thesis by (simp only: simp_thms)
qed

section \<open>What an update leaves alone\<close>

text \<open>
  Claim C10. A successful \<^verbatim>\<open>updateProperty\<close> leaves \<open>property_id\<close>, \<open>user_id\<close>,
  \<open>isApproved\<close>, \<open>isForRent\<close>, \<open>square_meter\<close> and \<open>created_at\<close> of every row as they
  were, in the row it returns and in the table, whatever values it is given; no
  row is added or removed. The same holds for the update endpoint of the
  controller, whether it answers 200 or 400.
\<close>

theorem update_leaves_frame:
  "(updateProperty st k n d c pr t be ba l bl pa f y = Inr (p', st') \<longrightarrow>
      map frame_of (properties st') = map frame_of (properties st) \<and>
      (\<exists>p \<in> set (properties st). property_id p = k \<and> frame_of p' = frame_of p)) \<and>
   (updateProperty_controller st k body = (resp, st'') \<longrightarrow>
      map frame_of (properties st'') = map frame_of (properties st))"
proof (intro conjI impI)
  assume "updateProperty st k n d c pr t be ba l bl pa f y = Inr (p', st')"
  from updateProperty_Inr [OF this] obtain p g where
    p: "find (\<lambda>p. property_id p = k) (properties st) = Some p"
    and g: "set_attrs st (filter (\<lambda>(a, v). v \<noteq> JUndefined)
             (update_values n d c pr t be ba l bl pa f y)) = Inr g"
    and p': "p' = g p" and st': "st' = st\<lparr>properties := update_rows k g (properties st)\<rparr>"
    by blast
  show "map frame_of (properties st') = map frame_of (properties st)"
    by (simp add: st' update_rows_frame set_attrs_frame [OF g])
  from find_pk [OF p] show "\<exists>p \<in> set (properties st). property_id p = k \<and> frame_of p' = frame_of p"
    by (auto simp: p' set_attrs_frame [OF g])
next
  assume c: "updateProperty_controller st k body = (resp, st'')"
  show "map frame_of (properties st'') = map frame_of (properties st)"
  proof (cases "updateProperty st k (body_name body) (body_description body)
             (body_city body) (body_price body) (body_property_type body)
             (body_bedrooms body) (body_bathrooms body) (body_living_rooms body)
             (body_balconies body) (body_parking_spaces body)
             (body_year_built body) (body_furnished body)")
    case (Inl e)
    with c show ?thesis
      by (cases e) (simp add: updateProperty_controller_def)
  next
    case (Inr r)
    obtain q s where r: "r = (q, s)" by (cases r)
    from c Inr have "st'' = s"
      by (simp add: updateProperty_controller_def r)
    moreover from updateProperty_Inr [OF Inr [unfolded r]] obtain g where
      "set_attrs st (filter (\<lambda>(a, v). v \<noteq> JUndefined)
             (update_values (body_name body) (body_description body)
             (body_city body) (body_price body) (body_property_type body)
             (body_bedrooms body) (body_bathrooms body) (body_living_rooms body)
             (body_balconies body) (body_parking_spaces body)
             (body_year_built body) (body_furnished body))) = Inr g"
      and "s = st\<lparr>properties := update_rows k g (properties st)\<rparr>"
      by blast
    ultimately show ?thesis
      by (simp add: update_rows_frame set_attrs_frame)
  qed
qed

text \<open>On the seeded store: an update of the price of property 1 succeeds and leaves
  the six columns of every row as they were.\<close>

theorem update_leaves_frame_witness:
  "updateProperty seed 1 JUndefined JUndefined JUndefined (JNum 120000) JUndefined JUndefined
     JUndefined JUndefined JUndefined JUndefined JUndefined JUndefined =
   Inr (propA\<lparr>price := 120000\<rparr>,
        seed\<lparr>properties := [propA\<lparr>price := 120000\<rparr>, propB, propC]\<rparr>) \<and>
   map frame_of [propA\<lparr>price := 120000\<rparr>, propB, propC] = map frame_of (properties seed) \<and>
   frame_of (propA\<lparr>price := 120000\<rparr>) = (1, 1, True, False, 120, 10)"
proof -
  from update_leaves_frame [of seed 1 JUndefined JUndefined JUndefined "JNum 120000" JUndefined JUndefined
      JUndefined JUndefined JUndefined JUndefined JUndefined JUndefined
      "propA\<lparr>price := 120000\<rparr>"
      "seed\<lparr>properties := [propA\<lparr>price := 120000\<rparr>, propB, propC]\<rparr>"]
    seed_update_price
  have "map frame_of (properties (seed\<lparr>properties := [propA\<lparr>price := 120000\<rparr>, propB, propC]\<rparr>)) =
      map frame_of (properties seed)"
    by (simp only: simp_thms)
  then have m: "map frame_of [propA\<lparr>price := 120000\<rparr>, propB, propC] =
      map frame_of (properties seed)"
    by simp
  have f: "frame_of (propA\<lparr>price := 120000\<rparr>) = (1, 1, True, False, 120, 10)"
    by (simp add: frame_of_def propA_def blank_def)
  show ?thesis
    by (intro conjI seed_update_price m f)
qed

end
